theory Spec2Isabelle
  imports Main
begin

section \<open>Errors and results\<close>

text \<open>
  The package builds every error with \<^verbatim>\<open>fmt.Errorf\<close> and has no error types of its own.
  Each call site of the source is a constructor here:
  \<^item> \<open>CfgNotPointer k\<close>: \<^verbatim>\<open>cfg must be a pointer to a struct - got %s\<close>;
  \<^item> \<open>PrintVersionNil\<close>: \<^verbatim>\<open>printVersion must be a function\<close>;
  \<^item> \<open>WriterNil\<close>: \<^verbatim>\<open>writer must be a non-nil writer\<close>;
  \<^item> \<open>NilWriterReceived\<close>: \<^verbatim>\<open>nil writer received\<close> (version.go);
  \<^item> \<open>ConfigFileNotFoundAt p\<close>: \<^verbatim>\<open>config file not found at %q\<close>;
  \<^item> \<open>ReadMainConfigAt p e\<close>: \<^verbatim>\<open>read main config at %q: %w\<close>;
  \<^item> \<open>Wrap ctx e\<close>: \<^verbatim>\<open>fmt.Errorf(ctx + ": %w", e)\<close>, for the contexts \<^verbatim>\<open>bind config flag\<close>,
    \<^verbatim>\<open>bind version flag\<close>, \<^verbatim>\<open>print version\<close>, \<^verbatim>\<open>unmarshal main config\<close>,
    \<^verbatim>\<open>build root command\<close>, \<^verbatim>\<open>execute root command\<close>.

  \<open>FlagIsNil\<close> and \<open>ConfigFileNotFoundError\<close> are viper's errors, \<open>PathError p\<close> is the
  \<^verbatim>\<open>*fs.PathError\<close> of opening a file that is not there (\<^verbatim>\<open>open p: no such file or
  directory\<close>), \<open>External\<close> is any other error value handed in by a library, a writer
  or a caller-supplied printer.
  \<open>Kind\<close> is \<^verbatim>\<open>reflect.Kind\<close>, as far as the source tells kinds apart.
\<close>

datatype Kind = Invalid | Struct | Ptr | OtherKind string

datatype error =
    CfgNotPointer Kind
  | PrintVersionNil
  | WriterNil
  | NilWriterReceived
  | ConfigFileNotFoundAt string
  | ReadMainConfigAt string error
  | Wrap string error
  | FlagIsNil string
  | ConfigFileNotFoundError
  | PathError string
  | External string

text \<open>\<^verbatim>\<open>LoadResult\<close> of config.go: the two values of the \<^verbatim>\<open>iota\<close> block.\<close>

datatype LoadResult = LoadResultContinue | LoadResultStop

section \<open>Output sinks\<close>

text \<open>
  An \<^verbatim>\<open>io.Writer\<close> is modelled by the payloads handed to its \<^verbatim>\<open>Write\<close> method, in
  order, and by the error \<^verbatim>\<open>Write\<close> answers for a payload (\<open>None\<close>: accepted).  A nil
  writer is \<open>None :: writer option\<close>.
\<close>

record writer =
  writes :: "string list"
  failure :: "string \<Rightarrow> error option"

definition Write :: "writer \<Rightarrow> string \<Rightarrow> writer \<times> error option" where
  "Write w p = (w\<lparr>writes := writes w @ [p]\<rparr>, failure w p)"

text \<open>
  A version printer is a \<^verbatim>\<open>func(io.Writer) error\<close>: it receives the (possibly nil) writer
  and answers its error together with the writer as it left it.
\<close>

type_synonym printer = "writer option \<Rightarrow> error option \<times> writer option"

section \<open>version.go\<close>

text \<open>\<^verbatim>\<open>fmt.Fprintln(w, s)\<close> formats \<open>s\<close>, appends a newline and issues one \<^verbatim>\<open>Write\<close>.\<close>

definition Fprintln :: "writer \<Rightarrow> string \<Rightarrow> writer \<times> error option" where
  "Fprintln w s = Write w (s @ [CHR 0x0A])"

definition PlainVersionPrinter :: "string \<Rightarrow> printer" where
  "PlainVersionPrinter version = (\<lambda>w.
     case w of
       None \<Rightarrow> (Some NilWriterReceived, None)
     | Some wr \<Rightarrow> (case Fprintln wr version of (wr', err) \<Rightarrow> (err, Some wr')))"

text \<open>
  The struct \<^verbatim>\<open>info\<close> with its tags: every field is its JSON name, whether the tag
  carries \<^verbatim>\<open>omitempty\<close>, and its value.
\<close>

type_synonym json_field = "string \<times> bool \<times> string"

definition info :: "string \<Rightarrow> string \<Rightarrow> string \<Rightarrow> json_field list" where
  "info version commit date =
     [(''version'', False, version), (''commit'', True, commit), (''date'', True, date)]"

text \<open>
  \<^verbatim>\<open>json.Encoder.Encode\<close> on a struct of strings: fields in declaration order, an
  \<^verbatim>\<open>omitempty\<close> field skipped when its string is empty, the object followed by a
  newline, all in one \<^verbatim>\<open>Write\<close>.  How a Go string is rendered as a JSON string literal
  (quotes and escapes) is the library's; it is the parameter \<open>q\<close>.
\<close>

definition emitted :: "json_field list \<Rightarrow> json_field list" where
  "emitted fs = filter (\<lambda>(n, omitempty, v). \<not> (omitempty \<and> v = [])) fs"

definition json_member :: "(string \<Rightarrow> string) \<Rightarrow> json_field \<Rightarrow> string" where
  "json_member q f = (case f of (n, omitempty, v) \<Rightarrow> [CHR 0x22] @ n @ [CHR 0x22] @ '':'' @ q v)"

primrec join :: "string \<Rightarrow> string list \<Rightarrow> string" where
  "join sep [] = []"
| "join sep (x # xs) = (if xs = [] then x else x @ sep @ join sep xs)"

definition Marshal :: "(string \<Rightarrow> string) \<Rightarrow> json_field list \<Rightarrow> string" where
  "Marshal q fs = ''{'' @ join '','' (map (json_member q) (emitted fs)) @ ''}''"

definition Encode :: "(string \<Rightarrow> string) \<Rightarrow> writer \<Rightarrow> json_field list \<Rightarrow> writer \<times> error option" where
  "Encode q w data = Write w (Marshal q data @ [CHR 0x0A])"

definition JSONVersionPrinter :: "(string \<Rightarrow> string) \<Rightarrow> string \<Rightarrow> string \<Rightarrow> string \<Rightarrow> printer" where
  "JSONVersionPrinter q version commit date =
     (let data = info version commit date in
      (\<lambda>w. case w of
         None \<Rightarrow> (Some NilWriterReceived, None)
       | Some wr \<Rightarrow> (case Encode q wr data of (wr', err) \<Rightarrow> (err, Some wr'))))"

section \<open>The process around a call: arguments, environment, files\<close>

text \<open>
  \<^verbatim>\<open>Load\<close> reads the process arguments, the process environment and one file through
  cobra, pflag and viper.  These libraries are not part of the repository; what the
  source asks of them is modelled below as they document it, and what they compute
  from the outside world is an input of the model:
  \<^item> \<open>args\<close>: what pflag makes of \<^verbatim>\<open>os.Args[1:]\<close> for the three flags of the command: a
    flag error (\<open>BadFlags\<close>), or for each of \<^verbatim>\<open>--config\<close>, \<^verbatim>\<open>--version\<close>, \<^verbatim>\<open>--help\<close>, in
    this order, the value given on the command line.  \<open>None\<close>: the flag does not
    occur, so it keeps its default and \<^verbatim>\<open>Changed\<close> stays false.  \<^verbatim>\<open>--version\<close> is
    \<open>Some True\<close>, \<^verbatim>\<open>--version=false\<close> is \<open>Some False\<close>, \<^verbatim>\<open>--config ""\<close> is \<open>Some []\<close>.
  \<^item> \<open>environ\<close>: \<^verbatim>\<open>os.LookupEnv\<close>.
  \<^item> \<open>readFile\<close>: the disk, as viper finds it when it reads the file at a path that
    is not empty: \<open>Missing\<close>, there is no such file; \<open>Unreadable m\<close>, the file cannot be
    used (its format is not supported, it does not parse), with viper's message;
    \<open>Loaded\<close>, the decoded key/value tree, keys lower-case, a nested key written as
    the path to its leaf with \<^verbatim>\<open>.\<close> between the segments (the tree of a file holds
    leaves only: no key of it is a parent of another).
  \<^item> \<open>decode\<close>: mapstructure's decoding of the merged settings into the destination;
    it answers an error or nil, and the destination as it left it.
\<close>

datatype val = VStr string | VBool bool | VInt int

datatype read_result = Missing | Unreadable string | Loaded "string \<Rightarrow> val option"

datatype argv = BadFlags string | Flags "string option" "bool option" "bool option"

record 'c ambient =
  args :: argv
  environ :: "string \<Rightarrow> string option"
  readFile :: "string \<Rightarrow> read_result"
  decode :: "(string \<Rightarrow> val option) \<Rightarrow> 'c \<Rightarrow> error option \<times> 'c"

subsection \<open>The destination argument\<close>

text \<open>
  \<^verbatim>\<open>cfg any\<close>: the nil interface, a value that is no pointer (a struct, or something
  of another kind, named as \<^verbatim>\<open>Kind.String()\<close> names it), or a pointer: nil, to a
  struct, or to something that is no struct.  \<open>Kind_of\<close> is
  \<^verbatim>\<open>reflect.ValueOf(cfg).Kind()\<close>.
\<close>

datatype 'c pointee = NilPointer | StructAt 'c | NonStructAt 'c

datatype 'c cfg_arg = NilInterface | StructValue 'c | OtherValue string | Pointer "'c pointee"

definition Kind_of :: "'c cfg_arg \<Rightarrow> Kind" where
  "Kind_of cfg = (case cfg of
     NilInterface \<Rightarrow> Invalid
   | StructValue c \<Rightarrow> Struct
   | OtherValue k \<Rightarrow> OtherKind k
   | Pointer p \<Rightarrow> Ptr)"

subsection \<open>pflag: the flag set of the command\<close>

datatype flag_value = BoolValue bool | StringValue string

record Flag =
  Value :: flag_value
  Changed :: bool

type_synonym FlagSet = "string \<Rightarrow> Flag option"

definition StringP :: "string \<Rightarrow> string \<Rightarrow> string \<Rightarrow> FlagSet \<Rightarrow> FlagSet" where
  "StringP nm shorthand dflt fs = fs(nm \<mapsto> \<lparr>Value = StringValue dflt, Changed = False\<rparr>)"

definition BoolP :: "string \<Rightarrow> string \<Rightarrow> bool \<Rightarrow> FlagSet \<Rightarrow> FlagSet" where
  "BoolP nm shorthand dflt fs = fs(nm \<mapsto> \<lparr>Value = BoolValue dflt, Changed = False\<rparr>)"

definition Lookup :: "FlagSet \<Rightarrow> string \<Rightarrow> Flag option" where
  "Lookup fs nm = fs nm"

text \<open>\<^verbatim>\<open>FlagSet.Changed(name)\<close>: false for a flag that does not exist.\<close>

definition FlagChanged :: "FlagSet \<Rightarrow> string \<Rightarrow> bool" where
  "FlagChanged fs nm = (case fs nm of None \<Rightarrow> False | Some f \<Rightarrow> Changed f)"

text \<open>\<^verbatim>\<open>FlagSet.GetBool(name)\<close>, as cobra reads its help flag.\<close>

definition FlagGetBool :: "FlagSet \<Rightarrow> string \<Rightarrow> bool" where
  "FlagGetBool fs nm = (case fs nm of Some f \<Rightarrow> (case Value f of BoolValue b \<Rightarrow> b | StringValue s \<Rightarrow> False) | None \<Rightarrow> False)"

text \<open>Setting a flag from the command line stores the value and marks it changed.\<close>

definition SetFlag :: "string \<Rightarrow> flag_value option \<Rightarrow> FlagSet \<Rightarrow> FlagSet" where
  "SetFlag nm given fs = (case given of
     None \<Rightarrow> fs
   | Some x \<Rightarrow> fs(nm \<mapsto> \<lparr>Value = x, Changed = True\<rparr>))"

definition ParseFlags :: "argv \<Rightarrow> FlagSet \<Rightarrow> error + FlagSet" where
  "ParseFlags a fs = (case a of
     BadFlags msg \<Rightarrow> Inl (External msg)
   | Flags c v h \<Rightarrow>
       Inr (SetFlag ''help'' (map_option BoolValue h)
             (SetFlag ''version'' (map_option BoolValue v)
               (SetFlag ''config'' (map_option StringValue c) fs))))"

subsection \<open>strings, strconv, cast\<close>

text \<open>
  \<^verbatim>\<open>strings.ToUpper\<close> on strings of ASCII bytes, as the names of environment variables
  are: the letters \<^verbatim>\<open>a\<close>..\<^verbatim>\<open>z\<close> are mapped and every other byte is kept.  Go maps the letters
  of other scripts as well; a prefix or a key that holds such letters is not covered.
\<close>

definition ToUpper_char :: "char \<Rightarrow> char" where
  "ToUpper_char c =
     (case map_of (zip ''abcdefghijklmnopqrstuvwxyz'' ''ABCDEFGHIJKLMNOPQRSTUVWXYZ'') c of
        Some u \<Rightarrow> u
      | None \<Rightarrow> c)"

definition ToUpper :: "string \<Rightarrow> string" where
  "ToUpper s = map ToUpper_char s"

text \<open>\<^verbatim>\<open>strings.NewReplacer(old, new).Replace\<close> for one-byte \<open>old\<close> and \<open>new\<close>.\<close>

definition Replace :: "char \<times> char \<Rightarrow> string \<Rightarrow> string" where
  "Replace r s = map (\<lambda>c. if c = fst r then snd r else c) s"

text \<open>\<^verbatim>\<open>strconv.ParseBool\<close>: \<open>None\<close> is its syntax error.\<close>

definition ParseBool :: "string \<Rightarrow> bool option" where
  "ParseBool s =
     (if s = ''1'' \<or> s = ''t'' \<or> s = ''T'' \<or> s = ''TRUE'' \<or> s = ''true'' \<or> s = ''True''
      then Some True
      else if s = ''0'' \<or> s = ''f'' \<or> s = ''F'' \<or> s = ''FALSE'' \<or> s = ''false'' \<or> s = ''False''
      then Some False
      else None)"

fun FormatUint :: "nat \<Rightarrow> string" where
  "FormatUint n =
     (if n < 10 then [''0123456789'' ! n]
      else FormatUint (n div 10) @ [''0123456789'' ! (n mod 10)])"

declare FormatUint.simps [simp del]

definition Itoa :: "int \<Rightarrow> string" where
  "Itoa i = (if i < 0 then ''-'' @ FormatUint (nat (- i)) else FormatUint (nat i))"

text \<open>\<^verbatim>\<open>cast.ToBool\<close> and \<^verbatim>\<open>cast.ToString\<close> on what \<^verbatim>\<open>viper.Get\<close> answers (\<open>None\<close> is nil).\<close>

definition ToBool :: "val option \<Rightarrow> bool" where
  "ToBool x = (case x of
     None \<Rightarrow> False
   | Some (VBool b) \<Rightarrow> b
   | Some (VStr s) \<Rightarrow> (ParseBool s = Some True)
   | Some (VInt i) \<Rightarrow> i \<noteq> 0)"

definition ToString :: "val option \<Rightarrow> string" where
  "ToString x = (case x of
     None \<Rightarrow> []
   | Some (VStr s) \<Rightarrow> s
   | Some (VBool b) \<Rightarrow> (if b then ''true'' else ''false'')
   | Some (VInt i) \<Rightarrow> Itoa i)"

subsection \<open>viper\<close>

text \<open>
  The part of a \<^verbatim>\<open>viper.Viper\<close> the source touches.  A bound flag is a pointer into the
  command's flag set: \<open>pflags\<close> keeps the flag's name, and a lookup reads the flag set
  as it is at that moment.  No \<^verbatim>\<open>Set\<close> override, default, alias or remote store is
  ever installed by the source, so those layers are left out.
\<close>

record Viper =
  vEnvPrefix :: string
  envKeyReplacer :: "(char \<times> char) option"
  automaticEnvApplied :: bool
  pflags :: "string \<Rightarrow> string option"
  configFile :: string
  config :: "string \<Rightarrow> val option"

definition viper_New :: Viper where
  "viper_New = \<lparr>vEnvPrefix = [], envKeyReplacer = None, automaticEnvApplied = False,
     pflags = Map.empty, configFile = [], config = Map.empty\<rparr>"

definition SetEnvPrefix :: "string \<Rightarrow> Viper \<Rightarrow> Viper" where
  "SetEnvPrefix p v = v\<lparr>vEnvPrefix := p\<rparr>"

definition SetEnvKeyReplacer :: "char \<times> char \<Rightarrow> Viper \<Rightarrow> Viper" where
  "SetEnvKeyReplacer r v = v\<lparr>envKeyReplacer := Some r\<rparr>"

definition AutomaticEnv :: "Viper \<Rightarrow> Viper" where
  "AutomaticEnv v = v\<lparr>automaticEnvApplied := True\<rparr>"

text \<open>\<^verbatim>\<open>BindPFlag(key, flag)\<close> fails only on a nil flag.\<close>

definition BindPFlag :: "string \<Rightarrow> FlagSet \<Rightarrow> string \<Rightarrow> Viper \<Rightarrow> error + Viper" where
  "BindPFlag key fs nm v = (case Lookup fs nm of
     None \<Rightarrow> Inl (FlagIsNil key)
   | Some f \<Rightarrow> Inr (v\<lparr>pflags := (pflags v)(key \<mapsto> nm)\<rparr>))"

definition mergeWithEnvPrefix :: "Viper \<Rightarrow> string \<Rightarrow> string" where
  "mergeWithEnvPrefix v key =
     (if vEnvPrefix v \<noteq> [] then ToUpper (vEnvPrefix v @ ''_'' @ key) else ToUpper key)"

text \<open>
  \<^verbatim>\<open>getEnv\<close>: the replacer is applied to the whole name; an empty value counts as unset
  (\<^verbatim>\<open>AllowEmptyEnv\<close> is never switched on by the source).
\<close>

definition getEnv :: "Viper \<Rightarrow> (string \<Rightarrow> string option) \<Rightarrow> string \<Rightarrow> string option" where
  "getEnv v env key =
     (let k = (case envKeyReplacer v of None \<Rightarrow> key | Some r \<Rightarrow> Replace r key) in
      case env k of
        None \<Rightarrow> None
      | Some x \<Rightarrow> if x \<noteq> [] then Some x else None)"

definition boundFlag :: "Viper \<Rightarrow> FlagSet \<Rightarrow> string \<Rightarrow> Flag option" where
  "boundFlag v fs key = (case pflags v key of None \<Rightarrow> None | Some nm \<Rightarrow> fs nm)"

definition flagVal :: "Flag \<Rightarrow> val" where
  "flagVal f = (case Value f of BoolValue b \<Rightarrow> VBool b | StringValue s \<Rightarrow> VStr s)"

text \<open>
  A key is a path, its segments separated by \<^verbatim>\<open>.\<close>.  \<open>parentKeys\<close> are the proper
  prefixes of the path, shortest first, as viper's \<^verbatim>\<open>isPathShadowedInFlatMap\<close> and
  \<^verbatim>\<open>isPathShadowedInAutoEnv\<close> run through them.  Both answer the first parent that is
  found, and \<^verbatim>\<open>find\<close> takes the key for shadowed when that answer is not the empty
  string.
\<close>

fun parentsFrom :: "string \<Rightarrow> string \<Rightarrow> string list" where
  "parentsFrom acc [] = []"
| "parentsFrom acc (c # cs) =
     (if c = CHR ''.'' then acc # parentsFrom (acc @ [c]) cs else parentsFrom (acc @ [c]) cs)"

definition parentKeys :: "string \<Rightarrow> string list" where
  "parentKeys key = parentsFrom [] key"

definition shadowedBy :: "(string \<Rightarrow> bool) \<Rightarrow> string \<Rightarrow> bool" where
  "shadowedBy found key =
     (case List.find found (parentKeys key) of Some p \<Rightarrow> p \<noteq> [] | None \<Rightarrow> False)"

text \<open>
  \<^verbatim>\<open>viper.Get\<close> (its \<^verbatim>\<open>find\<close>), in the library's order of precedence: a bound flag, if
  it was changed on the command line (whatever its value, the empty string too);
  nothing, if a parent of the key is bound to a flag; the environment, looked up for
  every key once \<^verbatim>\<open>AutomaticEnv\<close> is on; nothing, if a parent of the key is set in the
  environment; the config file; at last the default of a bound flag.
\<close>

definition viper_find :: "Viper \<Rightarrow> FlagSet \<Rightarrow> (string \<Rightarrow> string option) \<Rightarrow> string \<Rightarrow> val option" where
  "viper_find v fs env key =
     (let flag = boundFlag v fs key in
      if (case flag of Some f \<Rightarrow> Changed f | None \<Rightarrow> False) then map_option flagVal flag
      else if shadowedBy (\<lambda>p. pflags v p \<noteq> None) key then None
      else case (if automaticEnvApplied v then getEnv v env (mergeWithEnvPrefix v key) else None) of
             Some x \<Rightarrow> Some (VStr x)
           | None \<Rightarrow>
               if automaticEnvApplied v \<and>
                  shadowedBy (\<lambda>p. getEnv v env (mergeWithEnvPrefix v p) \<noteq> None) key
               then None
               else (case config v key of
                       Some x \<Rightarrow> Some x
                     | None \<Rightarrow> map_option flagVal flag))"

definition GetBool :: "Viper \<Rightarrow> FlagSet \<Rightarrow> (string \<Rightarrow> string option) \<Rightarrow> string \<Rightarrow> bool" where
  "GetBool v fs env key = ToBool (viper_find v fs env key)"

definition GetString :: "Viper \<Rightarrow> FlagSet \<Rightarrow> (string \<Rightarrow> string option) \<Rightarrow> string \<Rightarrow> string" where
  "GetString v fs env key = ToString (viper_find v fs env key)"

definition SetConfigFile :: "string \<Rightarrow> Viper \<Rightarrow> Viper" where
  "SetConfigFile p v = v\<lparr>configFile := p\<rparr>"

text \<open>
  \<^verbatim>\<open>ReadInConfig\<close>: with no config file set (the empty path) viper searches its config
  paths, of which the source adds none, and answers \<^verbatim>\<open>ConfigFileNotFoundError\<close>; with a
  file set it reads that file, and a file that is not there is the \<^verbatim>\<open>*fs.PathError\<close> of
  opening it.
\<close>

definition ReadInConfig :: "(string \<Rightarrow> read_result) \<Rightarrow> Viper \<Rightarrow> error option \<times> Viper" where
  "ReadInConfig rd v =
     (if configFile v = [] then (Some ConfigFileNotFoundError, v)
      else case rd (configFile v) of
        Missing \<Rightarrow> (Some (PathError (configFile v)), v)
      | Unreadable m \<Rightarrow> (Some (External m), v)
      | Loaded tree \<Rightarrow> (None, v\<lparr>config := tree\<rparr>))"

text \<open>
  \<^verbatim>\<open>AllSettings\<close>: every key of \<^verbatim>\<open>AllKeys\<close> with what \<^verbatim>\<open>Get\<close> answers for it.  The keys are
  those of the bound flags and the leaves of the config file that do not lie under
  a key bound to a flag; a variable of the environment adds no key.
\<close>

definition AllSettings :: "Viper \<Rightarrow> FlagSet \<Rightarrow> (string \<Rightarrow> string option) \<Rightarrow> string \<Rightarrow> val option" where
  "AllSettings v fs env =
     (\<lambda>key. if pflags v key \<noteq> None \<or>
               (config v key \<noteq> None \<and> \<not> list_ex (\<lambda>p. pflags v p \<noteq> None) (parentKeys key))
            then viper_find v fs env key else None)"

text \<open>\<^verbatim>\<open>errors.As(err, &notFound)\<close> for \<^verbatim>\<open>viper.ConfigFileNotFoundError\<close>: along the \<^verbatim>\<open>%w\<close> chain.\<close>

primrec As_ConfigFileNotFoundError :: "error \<Rightarrow> bool" where
  "As_ConfigFileNotFoundError (CfgNotPointer k) = False"
| "As_ConfigFileNotFoundError PrintVersionNil = False"
| "As_ConfigFileNotFoundError WriterNil = False"
| "As_ConfigFileNotFoundError NilWriterReceived = False"
| "As_ConfigFileNotFoundError (ConfigFileNotFoundAt p) = False"
| "As_ConfigFileNotFoundError (ReadMainConfigAt p e) = As_ConfigFileNotFoundError e"
| "As_ConfigFileNotFoundError (Wrap c e) = As_ConfigFileNotFoundError e"
| "As_ConfigFileNotFoundError (FlagIsNil k) = False"
| "As_ConfigFileNotFoundError ConfigFileNotFoundError = True"
| "As_ConfigFileNotFoundError (PathError p) = False"
| "As_ConfigFileNotFoundError (External m) = False"

section \<open>The loader: buildRootCommand and Load\<close>

record Loader =
  name :: string
  short :: string
  long :: string
  configPath :: string
  envPrefix :: string

definition NewLoader :: "string \<Rightarrow> string \<Rightarrow> string \<Rightarrow> string \<Rightarrow> string \<Rightarrow> Loader" where
  "NewLoader nm sh lg cp ep =
     \<lparr>name = nm, short = sh, long = lg, configPath = cp, envPrefix = ep\<rparr>"

text \<open>
  What one call does to the outside is kept as a trace: cobra parsing the arguments,
  cobra printing its help text or an error with the usage (to the process's own
  standard streams, the source never redirects them), the version printer being
  called, the config file path being fixed, the file being read, the settings being
  decoded into the destination.
\<close>

datatype event =
    EvParseFlags
  | EvHelp
  | EvPrintError
  | EvPrintVersion
  | EvSetConfigFile string
  | EvReadInConfig string
  | EvUnmarshal

text \<open>
  The objects one call works on: the command's flag set, the viper instance, the
  writer, what the destination pointer points to, and the trace.
\<close>

record 'c proc =
  flagSet :: FlagSet
  vip :: Viper
  sink :: writer
  dest :: "'c pointee"
  trace :: "event list"

record 'c Command =
  Use :: string
  Short :: string
  Long :: string
  PreRunE :: "'c proc \<Rightarrow> error option \<times> 'c proc"
  Run :: "'c proc \<Rightarrow> 'c proc"

text \<open>
  \<^verbatim>\<open>v.Unmarshal(cfg)\<close>: mapstructure refuses a nil pointer; otherwise the merged
  settings are decoded into what the pointer points to.
\<close>

definition Unmarshal :: "'c ambient \<Rightarrow> 'c proc \<Rightarrow> error option \<times> 'c proc" where
  "Unmarshal amb st =
     (let st1 = st\<lparr>trace := trace st @ [EvUnmarshal]\<rparr>;
          settings = AllSettings (vip st) (flagSet st) (environ amb)
      in case dest st of
           NilPointer \<Rightarrow> (Some (External ''result must be addressable (a pointer)''), st1)
         | StructAt c \<Rightarrow> (case decode amb settings c of (err, c') \<Rightarrow> (err, st1\<lparr>dest := StructAt c'\<rparr>))
         | NonStructAt c \<Rightarrow> (case decode amb settings c of (err, c') \<Rightarrow> (err, st1\<lparr>dest := NonStructAt c'\<rparr>)))"

text \<open>The closure assigned to \<^verbatim>\<open>rootCmd.PreRunE\<close> in \<^verbatim>\<open>buildRootCommand\<close>.\<close>

definition PreRunE_hook :: "'c ambient \<Rightarrow> Loader \<Rightarrow> printer \<Rightarrow> 'c proc \<Rightarrow> error option \<times> 'c proc" where
  "PreRunE_hook amb l printVersion st =
     (if GetBool (vip st) (flagSet st) (environ amb) ''version'' then
        (case printVersion (Some (sink st)) of (err, w') \<Rightarrow>
           (let st1 = st\<lparr>sink := (case w' of Some x \<Rightarrow> x | None \<Rightarrow> sink st),
                          trace := trace st @ [EvPrintVersion]\<rparr>
            in case err of
                 Some e \<Rightarrow> (Some (Wrap ''print version'' e), st1)
               | None \<Rightarrow> (None, st1)))
      else
        (let got = GetString (vip st) (flagSet st) (environ amb) ''config'';
             path = (if got = [] then configPath l else got);
             st1 = st\<lparr>vip := SetConfigFile path (vip st), trace := trace st @ [EvSetConfigFile path]\<rparr>
         in case ReadInConfig (readFile amb) (vip st1) of (rerr, v2) \<Rightarrow>
              (let st2 = st1\<lparr>vip := v2, trace := trace st1 @ [EvReadInConfig (configFile v2)]\<rparr>
               in case rerr of
                    Some err \<Rightarrow>
                      if As_ConfigFileNotFoundError err then (Some (ConfigFileNotFoundAt path), st2)
                      else (Some (ReadMainConfigAt path err), st2)
                  | None \<Rightarrow>
                      (case Unmarshal amb st2 of
                         (Some err, st3) \<Rightarrow> (Some (Wrap ''unmarshal main config'' err), st3)
                       | (None, st3) \<Rightarrow> (None, st3)))))"

definition buildRootCommand :: "'c ambient \<Rightarrow> Loader \<Rightarrow> printer \<Rightarrow> 'c proc \<Rightarrow> error + ('c Command \<times> 'c proc)" where
  "buildRootCommand amb l printVersion st =
     (let fs = BoolP ''version'' ''v'' False (StringP ''config'' ''c'' [] (flagSet st));
          v = AutomaticEnv (SetEnvKeyReplacer (CHR ''.'', CHR ''_'') (SetEnvPrefix (envPrefix l) (vip st)))
      in case BindPFlag ''config'' fs ''config'' v of
           Inl err \<Rightarrow> Inl (Wrap ''bind config flag'' err)
         | Inr v1 \<Rightarrow>
             (case BindPFlag ''version'' fs ''version'' v1 of
                Inl err \<Rightarrow> Inl (Wrap ''bind version flag'' err)
              | Inr v2 \<Rightarrow>
                  Inr (\<lparr>Use = name l, Short = short l, Long = long l,
                        PreRunE = PreRunE_hook amb l printVersion, Run = (\<lambda>s. s)\<rparr>,
                       st\<lparr>flagSet := fs, vip := v2\<rparr>)))"

subsection \<open>cobra: executing the root command\<close>

text \<open>
  \<^verbatim>\<open>cmd.Execute()\<close> for a root command without subcommands, as cobra runs it: the
  help flag is added to the flag set, the arguments are parsed (a flag error ends the
  run), then, if the help flag's value is true, the help text is printed and the run
  ends without error and without any hook; otherwise \<^verbatim>\<open>PreRunE\<close> runs, and \<^verbatim>\<open>Run\<close>
  after it if it gave no error.  An error is printed with the usage.  (The test case
  \<^verbatim>\<open>help and config flags\<close> of \<^verbatim>\<open>loader_test.go\<close> relies on this order: with \<^verbatim>\<open>--help\<close> and
  a config path that does not exist it expects no error, so the hook has not run.)
\<close>

definition InitDefaultHelpFlag :: "FlagSet \<Rightarrow> FlagSet" where
  "InitDefaultHelpFlag fs = (if Lookup fs ''help'' = None then BoolP ''help'' ''h'' False fs else fs)"

definition Execute :: "'c ambient \<Rightarrow> 'c Command \<Rightarrow> 'c proc \<Rightarrow> error option \<times> 'c proc" where
  "Execute amb cmd st =
     (let fs0 = InitDefaultHelpFlag (flagSet st) in
      case ParseFlags (args amb) fs0 of
        Inl err \<Rightarrow> (Some err, st\<lparr>flagSet := fs0, trace := trace st @ [EvParseFlags, EvPrintError]\<rparr>)
      | Inr fs \<Rightarrow>
          (let st1 = st\<lparr>flagSet := fs, trace := trace st @ [EvParseFlags]\<rparr> in
           if FlagGetBool fs ''help'' then (None, st1\<lparr>trace := trace st1 @ [EvHelp]\<rparr>)
           else case PreRunE cmd st1 of
                  (Some err, st2) \<Rightarrow> (Some err, st2\<lparr>trace := trace st2 @ [EvPrintError]\<rparr>)
                | (None, st2) \<Rightarrow> (None, Run cmd st2)))"

subsection \<open>Load\<close>

text \<open>
  What the caller can observe after \<^verbatim>\<open>Load\<close>: the destination argument and the writer as
  the call left them, and the trace.
\<close>

record 'c world =
  cfg_after :: "'c cfg_arg"
  writer_after :: "writer option"
  events :: "event list"

definition untouched :: "'c cfg_arg \<Rightarrow> writer option \<Rightarrow> 'c world" where
  "untouched cfg writer = \<lparr>cfg_after = cfg, writer_after = writer, events = []\<rparr>"

definition world_of :: "'c proc \<Rightarrow> 'c world" where
  "world_of st = \<lparr>cfg_after = Pointer (dest st), writer_after = Some (sink st), events = trace st\<rparr>"

definition Load ::
  "'c ambient \<Rightarrow> Loader \<Rightarrow> 'c cfg_arg \<Rightarrow> printer option \<Rightarrow> writer option \<Rightarrow> LoadResult \<times> error option \<times> 'c world" where
  "Load amb l cfg printVersion writer =
     (if Kind_of cfg \<noteq> Ptr then
        (LoadResultStop, Some (CfgNotPointer (Kind_of cfg)), untouched cfg writer)
      else case printVersion of
        None \<Rightarrow> (LoadResultStop, Some PrintVersionNil, untouched cfg writer)
      | Some pv \<Rightarrow>
         (case writer of
            None \<Rightarrow> (LoadResultStop, Some WriterNil, untouched cfg writer)
          | Some w \<Rightarrow>
             (let st0 = \<lparr>flagSet = Map.empty, vip = viper_New, sink = w,
                         dest = (case cfg of Pointer p \<Rightarrow> p | _ \<Rightarrow> NilPointer), trace = []\<rparr>
              in case buildRootCommand amb l pv st0 of
                   Inl err \<Rightarrow> (LoadResultStop, Some (Wrap ''build root command'' err), world_of st0)
                 | Inr (cmd, st1) \<Rightarrow>
                     (case Execute amb cmd st1 of
                        (Some err, st2) \<Rightarrow>
                          (LoadResultStop, Some (Wrap ''execute root command'' err), world_of st2)
                      | (None, st2) \<Rightarrow>
                          if FlagChanged (flagSet st2) ''help'' \<or> FlagChanged (flagSet st2) ''version''
                          then (LoadResultStop, None, world_of st2)
                          else (LoadResultContinue, None, world_of st2)))))"

section \<open>Notions the statements are written in\<close>

text \<open>
  The name of the environment variable viper consults for a key under the Loader's
  prefix, and its value when it is set and not empty.
\<close>

definition envName :: "Loader \<Rightarrow> string \<Rightarrow> string" where
  "envName l key =
     Replace (CHR ''.'', CHR ''_'')
       (if envPrefix l \<noteq> [] then ToUpper (envPrefix l @ ''_'' @ key) else ToUpper key)"

definition envValue :: "Loader \<Rightarrow> (string \<Rightarrow> string option) \<Rightarrow> string \<Rightarrow> string option" where
  "envValue l env key =
     (case env (envName l key) of None \<Rightarrow> None | Some x \<Rightarrow> if x \<noteq> [] then Some x else None)"

text \<open>
  The value a command-line flag gives to a key (only \<^verbatim>\<open>config\<close> and \<^verbatim>\<open>version\<close> are bound
  to flags), and the default of the flag bound to a key.
\<close>

definition flagGiven :: "argv \<Rightarrow> string \<Rightarrow> val option" where
  "flagGiven a key = (case a of
     BadFlags msg \<Rightarrow> None
   | Flags c v h \<Rightarrow>
       if key = ''config'' then map_option VStr c
       else if key = ''version'' then map_option VBool v
       else None)"

definition flagDefault :: "string \<Rightarrow> val option" where
  "flagDefault key =
     (if key = ''config'' then Some (VStr [])
      else if key = ''version'' then Some (VBool False)
      else None)"

text \<open>Precedence as the specification words it: flag, then environment, then file, then default.\<close>

definition precedence :: "val option \<Rightarrow> string option \<Rightarrow> val option \<Rightarrow> val option \<Rightarrow> val option" where
  "precedence flag env file dflt = (case flag of
     Some x \<Rightarrow> Some x
   | None \<Rightarrow> (case env of
        Some y \<Rightarrow> Some (VStr y)
      | None \<Rightarrow> (case file of
           Some z \<Rightarrow> Some z
         | None \<Rightarrow> dflt)))"

text \<open>
  The value of a key as the specification words it, for every key: the first of flag,
  environment, file and default that has one.
\<close>

definition spec_value :: "Loader \<Rightarrow> 'c ambient \<Rightarrow> (string \<Rightarrow> val option) \<Rightarrow> string \<Rightarrow> val option" where
  "spec_value l amb tree key =
     precedence (flagGiven (args amb) key) (envValue l (environ amb) key) (tree key) (flagDefault key)"

text \<open>
  A key lies under a flag when one of its parents is bound to a flag, and under the
  environment when one of its parents has a non-empty environment variable.
\<close>

definition underFlag :: "string \<Rightarrow> bool" where
  "underFlag key = shadowedBy (\<lambda>p. flagDefault p \<noteq> None) key"

definition underEnv :: "Loader \<Rightarrow> (string \<Rightarrow> string option) \<Rightarrow> string \<Rightarrow> bool" where
  "underEnv l env key = shadowedBy (\<lambda>p. envValue l env p \<noteq> None) key"

text \<open>
  The merged settings over a loaded file, in terms of the inputs.  Their keys are the
  keys of the file and of the two bound flags; a key found in the environment only is
  not among them.  A key is dropped when it lies under a flag, or when it has no
  environment variable of its own and lies under the environment.  Every other key
  has the value of its flag if given, else of its environment variable, else of the
  file, else the default of its flag.
\<close>

definition merged :: "Loader \<Rightarrow> 'c ambient \<Rightarrow> (string \<Rightarrow> val option) \<Rightarrow> string \<Rightarrow> val option" where
  "merged l amb tree =
     (\<lambda>key. if (tree key = None \<and> flagDefault key = None) \<or> underFlag key \<or>
               (envValue l (environ amb) key = None \<and> underEnv l (environ amb) key)
            then None
            else precedence (flagGiven (args amb) key) (envValue l (environ amb) key) (tree key)
                   (flagDefault key))"

text \<open>
  Whether \<^verbatim>\<open>version\<close> is switched on for a call, in terms of the inputs: by the flag when
  it is given, otherwise by the environment variable of that key.  It is the value of
  the hook's variable \<^verbatim>\<open>versionFlag\<close> (lemma \<open>GetBool_version\<close> below).
\<close>

definition versionFlag :: "Loader \<Rightarrow> 'c ambient \<Rightarrow> bool" where
  "versionFlag l amb = (case args amb of
     BadFlags msg \<Rightarrow> False
   | Flags c v h \<Rightarrow> (case v of
        Some b \<Rightarrow> b
      | None \<Rightarrow> (case envValue l (environ amb) ''version'' of
           Some x \<Rightarrow> ParseBool x = Some True
         | None \<Rightarrow> False)))"

text \<open>
  The config file path of a call, in terms of the inputs: the \<^verbatim>\<open>--config\<close> value when the
  flag is given (the fallback when it is given empty), otherwise the non-empty
  environment value, otherwise the fallback.  It is the value of the hook's variable
  \<^verbatim>\<open>configPath\<close> (lemma \<open>GetString_config\<close> below).
\<close>

definition resolvedPath :: "Loader \<Rightarrow> 'c ambient \<Rightarrow> string" where
  "resolvedPath l amb = (case args amb of
     BadFlags msg \<Rightarrow> configPath l
   | Flags c v h \<Rightarrow> (case c of
        Some f \<Rightarrow> if f = [] then configPath l else f
      | None \<Rightarrow> (case envValue l (environ amb) ''config'' of
           Some e \<Rightarrow> e
         | None \<Rightarrow> configPath l)))"

text \<open>
  The path as the specification words it: the flag's value if non-empty, else the
  environment value, else the fallback.
\<close>

definition spec_configPath :: "Loader \<Rightarrow> 'c ambient \<Rightarrow> string" where
  "spec_configPath l amb =
     (let flag = (case args amb of BadFlags msg \<Rightarrow> [] | Flags c v h \<Rightarrow> (case c of None \<Rightarrow> [] | Some f \<Rightarrow> f));
          env = (case environ amb (envName l ''config'') of None \<Rightarrow> [] | Some e \<Rightarrow> e)
      in if flag \<noteq> [] then flag else if env \<noteq> [] then env else configPath l)"

text \<open>
  Whether a call reaches the version printer: the arguments parse, help is not asked
  for, and \<^verbatim>\<open>version\<close> is switched on.
\<close>

definition printsVersion :: "Loader \<Rightarrow> 'c ambient \<Rightarrow> bool" where
  "printsVersion l amb = (case args amb of
     BadFlags msg \<Rightarrow> False
   | Flags c v h \<Rightarrow> h \<noteq> Some True \<and> versionFlag l amb)"

text \<open>
  The error of the hook when the config file at a path cannot be read: the
  not-found error for the empty path, the read error around viper's own otherwise.
\<close>

definition readFailure :: "'c ambient \<Rightarrow> string \<Rightarrow> error option" where
  "readFailure amb p =
     (if p = [] then Some (ConfigFileNotFoundAt p)
      else case readFile amb p of
        Missing \<Rightarrow> Some (ReadMainConfigAt p (PathError p))
      | Unreadable m \<Rightarrow> Some (ReadMainConfigAt p (External m))
      | Loaded tree \<Rightarrow> None)"

text \<open>The paths a trace fixes as config file, and the calls to the version printer in it.\<close>

primrec resolved :: "event list \<Rightarrow> string list" where
  "resolved [] = []"
| "resolved (e # es) = (case e of EvSetConfigFile p \<Rightarrow> p # resolved es | _ \<Rightarrow> resolved es)"

definition printerCalls :: "event list \<Rightarrow> nat" where
  "printerCalls es = length (filter (\<lambda>e. e = EvPrintVersion) es)"

text \<open>The three components of what \<^verbatim>\<open>Load\<close> answers.\<close>

definition result_of :: "LoadResult \<times> error option \<times> 'c world \<Rightarrow> LoadResult" where
  "result_of r = fst r"

definition error_of :: "LoadResult \<times> error option \<times> 'c world \<Rightarrow> error option" where
  "error_of r = fst (snd r)"

definition world_after :: "LoadResult \<times> error option \<times> 'c world \<Rightarrow> 'c world" where
  "world_after r = snd (snd r)"

subsection \<open>The state of a call after building and parsing\<close>

definition declared :: FlagSet where
  "declared =
     BoolP ''help'' ''h'' False (BoolP ''version'' ''v'' False (StringP ''config'' ''c'' [] Map.empty))"

definition parsed :: "string option \<Rightarrow> bool option \<Rightarrow> bool option \<Rightarrow> FlagSet" where
  "parsed c ver h =
     SetFlag ''help'' (map_option BoolValue h)
       (SetFlag ''version'' (map_option BoolValue ver)
         (SetFlag ''config'' (map_option StringValue c) declared))"

definition bound :: "Loader \<Rightarrow> string \<Rightarrow> (string \<Rightarrow> val option) \<Rightarrow> Viper" where
  "bound l cf tree =
     \<lparr>vEnvPrefix = envPrefix l, envKeyReplacer = Some (CHR ''.'', CHR ''_''),
      automaticEnvApplied = True,
      pflags = [''config'' \<mapsto> ''config'', ''version'' \<mapsto> ''version''],
      configFile = cf, config = tree\<rparr>"

subsection \<open>A sample setting\<close>

text \<open>
  A destination of two string fields (\<^verbatim>\<open>log_level\<close>, \<^verbatim>\<open>port\<close>), a disk with a good config
  file, one without \<^verbatim>\<open>port\<close>, one with nested keys and one that does not parse, the
  prefix \<^verbatim>\<open>TESTAPP\<close> of the repository's tests, a writer that accepts everything.
\<close>

definition sample_decode :: "(string \<Rightarrow> val option) \<Rightarrow> string \<times> string \<Rightarrow> error option \<times> (string \<times> string)" where
  "sample_decode m d = (None, (ToString (m ''log_level''), ToString (m ''port'')))"

definition sample_files :: "string \<Rightarrow> read_result" where
  "sample_files p =
     (if p = ''config.yaml'' then Loaded [''log_level'' \<mapsto> VStr ''info'', ''port'' \<mapsto> VStr ''8080'']
      else if p = ''partial.yaml'' then Loaded [''log_level'' \<mapsto> VStr ''info'']
      else if p = ''nested.yaml'' then Loaded [''db.url'' \<mapsto> VStr ''localhost'', ''db.pool_size'' \<mapsto> VStr ''10'']
      else if p = ''invalid.yaml'' then Unreadable ''While parsing config: yaml''
      else Missing)"

definition sample :: "argv \<Rightarrow> (string \<Rightarrow> string option) \<Rightarrow> (string \<times> string) ambient" where
  "sample a env = \<lparr>args = a, environ = env, readFile = sample_files, decode = sample_decode\<rparr>"

text \<open>The same with a destination of the two fields \<^verbatim>\<open>db.url\<close> and \<^verbatim>\<open>db.pool_size\<close>.\<close>

definition nested_decode :: "(string \<Rightarrow> val option) \<Rightarrow> string \<times> string \<Rightarrow> error option \<times> (string \<times> string)" where
  "nested_decode m d = (None, (ToString (m ''db.url''), ToString (m ''db.pool_size'')))"

definition nested_sample :: "argv \<Rightarrow> (string \<Rightarrow> string option) \<Rightarrow> (string \<times> string) ambient" where
  "nested_sample a env = \<lparr>args = a, environ = env, readFile = sample_files, decode = nested_decode\<rparr>"

definition sample_loader :: "string \<Rightarrow> Loader" where
  "sample_loader fallback = NewLoader ''testapp'' ''Test App'' [] fallback ''TESTAPP''"

text \<open>
  A rendering of strings as JSON literals for strings that need no escape, where
  \<^verbatim>\<open>encoding/json\<close> only puts the quotes around them.
\<close>

definition quoted :: "string \<Rightarrow> string" where
  "quoted s = [CHR 0x22] @ s @ [CHR 0x22]"

definition buffer :: writer where
  "buffer = \<lparr>writes = [], failure = (\<lambda>p. None)\<rparr>"

section \<open>The state of a call, step by step\<close>

subsection \<open>Building the command and parsing\<close>

lemma build:
  "buildRootCommand amb l pv \<lparr>flagSet = Map.empty, vip = viper_New, sink = w, dest = p, trace = []\<rparr> =
   Inr (\<lparr>Use = name l, Short = short l, Long = long l, PreRunE = PreRunE_hook amb l pv, Run = (\<lambda>s. s)\<rparr>,
        \<lparr>flagSet = BoolP ''version'' ''v'' False (StringP ''config'' ''c'' [] Map.empty),
         vip = bound l [] Map.empty, sink = w, dest = p, trace = []\<rparr>)"
  by (simp add: buildRootCommand_def bound_def StringP_def BoolP_def Lookup_def BindPFlag_def
        viper_New_def SetEnvPrefix_def SetEnvKeyReplacer_def AutomaticEnv_def)

lemma init_help: "InitDefaultHelpFlag (BoolP ''version'' ''v'' False (StringP ''config'' ''c'' [] Map.empty)) = declared"
  by (simp add: declared_def InitDefaultHelpFlag_def BoolP_def StringP_def Lookup_def)

lemma parse: "ParseFlags (Flags c ver h) declared = Inr (parsed c ver h)"
  by (simp add: ParseFlags_def parsed_def)

lemma parsed_config:
  "parsed c ver h ''config'' = Some \<lparr>Value = StringValue (case c of None \<Rightarrow> [] | Some x \<Rightarrow> x), Changed = (c \<noteq> None)\<rparr>"
  by (cases c; cases ver; cases h) (simp_all add: parsed_def declared_def SetFlag_def BoolP_def StringP_def)

lemma parsed_version:
  "parsed c ver h ''version'' = Some \<lparr>Value = BoolValue (case ver of None \<Rightarrow> False | Some x \<Rightarrow> x), Changed = (ver \<noteq> None)\<rparr>"
  by (cases c; cases ver; cases h) (simp_all add: parsed_def declared_def SetFlag_def BoolP_def StringP_def)

lemma parsed_help:
  "parsed c ver h ''help'' = Some \<lparr>Value = BoolValue (case h of None \<Rightarrow> False | Some x \<Rightarrow> x), Changed = (h \<noteq> None)\<rparr>"
  by (cases c; cases ver; cases h) (simp_all add: parsed_def declared_def SetFlag_def BoolP_def StringP_def)

lemma parsed_flags:
  "FlagChanged (parsed c ver h) ''help'' = (h \<noteq> None)"
  "FlagChanged (parsed c ver h) ''version'' = (ver \<noteq> None)"
  "FlagGetBool (parsed c ver h) ''help'' = (h = Some True)"
  by (cases h; cases ver; simp add: FlagChanged_def FlagGetBool_def parsed_help parsed_version)+

lemma getEnv_bound:
  "getEnv (bound l cf tree) env (mergeWithEnvPrefix (bound l cf tree) key) = envValue l env key"
  by (simp add: getEnv_def mergeWithEnvPrefix_def bound_def envValue_def envName_def)

lemma boundFlag_bound:
  "boundFlag (bound l cf tree) (parsed c ver h) key =
     (if key = ''config'' then parsed c ver h ''config''
      else if key = ''version'' then parsed c ver h ''version'' else None)"
  by (simp add: boundFlag_def bound_def)

lemma parentKeys_bound_keys: "parentKeys ''config'' = []" "parentKeys ''version'' = []"
  by (simp_all add: parentKeys_def)

lemma shadowedBy_list_ex:
  assumes "\<not> found []"
  shows "shadowedBy found key = list_ex found (parentKeys key)"
proof (cases "List.find found (parentKeys key)")
  case None
  then have "\<not> list_ex found (parentKeys key)"
    by (auto simp add: find_None_iff list_ex_iff)
  moreover from None have "\<not> shadowedBy found key"
    by (simp add: shadowedBy_def)
  ultimately show ?thesis
    by simp
next
  case (Some p)
  then have "found p" and "p \<in> set (parentKeys key)"
    by (auto simp add: find_Some_iff)
  with assms have "p \<noteq> []" and "list_ex found (parentKeys key)"
    by (auto simp add: list_ex_iff)
  moreover from Some have "shadowedBy found key = (p \<noteq> [])"
    by (simp add: shadowedBy_def)
  ultimately show ?thesis
    by simp
qed

lemma pflags_bound: "(\<lambda>p. pflags (bound l cf tree) p \<noteq> None) = (\<lambda>p. flagDefault p \<noteq> None)"
  by (rule ext) (simp add: bound_def flagDefault_def)

lemma getEnv_bound_fun:
  "(\<lambda>p. getEnv (bound l cf tree) env (mergeWithEnvPrefix (bound l cf tree) p) \<noteq> None) =
   (\<lambda>p. envValue l env p \<noteq> None)"
  by (rule ext) (simp only: getEnv_bound)

lemma shadowed_bound:
  "shadowedBy (\<lambda>p. pflags (bound l cf tree) p \<noteq> None) key = underFlag key"
  "shadowedBy (\<lambda>p. getEnv (bound l cf tree) env (mergeWithEnvPrefix (bound l cf tree) p) \<noteq> None) key =
     underEnv l env key"
  by (simp_all only: pflags_bound getEnv_bound_fun underFlag_def underEnv_def)

lemma not_under_bound_keys:
  "\<not> underFlag ''config''" "\<not> underFlag ''version''"
  "\<not> underEnv l env ''config''" "\<not> underEnv l env ''version''"
  by (simp_all add: underFlag_def underEnv_def shadowedBy_def parentKeys_bound_keys)

lemma find_bound:
  "viper_find (bound l cf tree) (parsed c ver h) (environ amb) key =
     (if flagGiven (Flags c ver h) key = None \<and>
         (underFlag key \<or> (envValue l (environ amb) key = None \<and> underEnv l (environ amb) key))
      then None
      else precedence (flagGiven (Flags c ver h) key) (envValue l (environ amb) key) (tree key)
             (flagDefault key))"
proof -
  have auto_env: "automaticEnvApplied (bound l cf tree)" and cfg: "config (bound l cf tree) = tree"
    by (simp_all add: bound_def)
  consider "key = ''config''" | "key = ''version''" | "key \<noteq> ''config''" "key \<noteq> ''version''"
    by blast
  then show ?thesis
  proof cases
    case 1
    then show ?thesis
      by (cases c)
         (simp_all add: viper_find_def boundFlag_bound parsed_config getEnv_bound auto_env cfg
            shadowed_bound underEnv_def[symmetric] underFlag_def[symmetric] not_under_bound_keys
            flagVal_def precedence_def flagGiven_def flagDefault_def del: not_None_eq split: option.split)
  next
    case 2
    then show ?thesis
      by (cases ver)
         (simp_all add: viper_find_def boundFlag_bound parsed_version getEnv_bound auto_env cfg
            shadowed_bound underEnv_def[symmetric] underFlag_def[symmetric] not_under_bound_keys
            flagVal_def precedence_def flagGiven_def flagDefault_def del: not_None_eq split: option.split)
  next
    case 3
    then show ?thesis
      by (simp add: viper_find_def boundFlag_bound getEnv_bound auto_env cfg shadowed_bound
            underEnv_def[symmetric] underFlag_def[symmetric]
            precedence_def flagGiven_def flagDefault_def del: not_None_eq split: option.split)
  qed
qed

subsection \<open>What viper answers after building and parsing\<close>

lemma envValue_nonempty: "envValue l env key \<noteq> Some []"
  by (simp add: envValue_def split: option.split)

lemma GetBool_version:
  assumes "args amb = Flags c ver h"
  shows "GetBool (bound l cf Map.empty) (parsed c ver h) (environ amb) ''version'' = versionFlag l amb"
  by (cases ver)
     (simp_all add: GetBool_def versionFlag_def find_bound assms precedence_def flagGiven_def
        flagDefault_def ToBool_def not_under_bound_keys split: option.split)

lemma GetString_config:
  assumes "args amb = Flags c ver h"
  shows "(let got = GetString (bound l cf Map.empty) (parsed c ver h) (environ amb) ''config''
          in if got = [] then configPath l else got) = resolvedPath l amb"
  by (cases c)
     (simp_all add: GetString_def resolvedPath_def find_bound assms precedence_def flagGiven_def
        flagDefault_def ToString_def envValue_nonempty not_under_bound_keys split: option.split)

lemma AllSettings_bound:
  assumes "args amb = Flags c ver h"
  shows "AllSettings (bound l cf tree) (parsed c ver h) (environ amb) = merged l amb tree"
proof
  fix key
  have "list_ex (\<lambda>p. flagDefault p \<noteq> None) (parentKeys key) = underFlag key"
    using shadowedBy_list_ex[of "\<lambda>p. flagDefault p \<noteq> None" key]
    by (simp add: underFlag_def flagDefault_def del: not_None_eq)
  then have under: "list_ex (\<lambda>p. pflags (bound l cf tree) p \<noteq> None) (parentKeys key) = underFlag key"
    by (simp only: pflags_bound)
  have known: "(pflags (bound l cf tree) key = None) = (flagDefault key = None)"
    by (simp add: bound_def flagDefault_def)
  have cfg: "config (bound l cf tree) key = tree key"
    by (simp add: bound_def)
  have given: "flagDefault key = None \<Longrightarrow> flagGiven (Flags c ver h) key = None"
    by (auto simp add: flagGiven_def flagDefault_def split: if_splits)
  have top: "flagDefault key \<noteq> None \<Longrightarrow> \<not> underFlag key \<and> \<not> underEnv l (environ amb) key"
    by (auto simp add: flagDefault_def not_under_bound_keys split: if_splits)
  show "AllSettings (bound l cf tree) (parsed c ver h) (environ amb) key = merged l amb tree key"
  proof (cases "flagDefault key = None")
    case True
    with given[OF True] show ?thesis
      by (simp add: AllSettings_def merged_def find_bound assms known under cfg precedence_def
            del: not_None_eq split: option.split)
  next
    case False
    with top[OF False] show ?thesis
      by (simp add: AllSettings_def merged_def find_bound assms known under cfg del: not_None_eq)
  qed
qed

lemma bound_upd:
  "SetConfigFile P (bound l cf tree) = bound l P tree"
  "configFile (bound l cf tree) = cf"
  "(bound l cf tree)\<lparr>config := tree'\<rparr> = bound l cf tree'"
  by (simp_all add: SetConfigFile_def bound_def)

subsection \<open>The pre-run hook\<close>

lemma hook_version:
  assumes "args amb = Flags c ver h" "versionFlag l amb"
  shows "PreRunE_hook amb l pv \<lparr>flagSet = parsed c ver h, vip = bound l [] Map.empty, sink = w, dest = p, trace = t\<rparr> =
     (map_option (Wrap ''print version'') (fst (pv (Some w))),
      \<lparr>flagSet = parsed c ver h, vip = bound l [] Map.empty,
       sink = (case snd (pv (Some w)) of Some x \<Rightarrow> x | None \<Rightarrow> w), dest = p, trace = t @ [EvPrintVersion]\<rparr>)"
  using assms
  by (cases "pv (Some w)"; cases "fst (pv (Some w))")
     (simp_all add: PreRunE_hook_def GetBool_version split: option.split)

lemma hook_config:
  assumes "args amb = Flags c ver h" "\<not> versionFlag l amb"
  shows "PreRunE_hook amb l pv \<lparr>flagSet = parsed c ver h, vip = bound l [] Map.empty, sink = w, dest = p, trace = t\<rparr> =
     (let P = resolvedPath l amb;
          st2 = \<lparr>flagSet = parsed c ver h, vip = bound l P Map.empty, sink = w, dest = p,
                 trace = t @ [EvSetConfigFile P, EvReadInConfig P]\<rparr>
      in case readFailure amb P of
           Some e \<Rightarrow> (Some e, st2)
         | None \<Rightarrow>
             (case readFile amb P of
                Loaded tree \<Rightarrow>
                  (case Unmarshal amb (st2\<lparr>vip := bound l P tree\<rparr>) of
                     (Some err, st3) \<Rightarrow> (Some (Wrap ''unmarshal main config'' err), st3)
                   | (None, st3) \<Rightarrow> (None, st3))
              | _ \<Rightarrow> (None, st2)))"
proof -
  have path: "(if GetString (bound l [] Map.empty) (parsed c ver h) (environ amb) ''config'' = []
        then configPath l
        else GetString (bound l [] Map.empty) (parsed c ver h) (environ amb) ''config'') = resolvedPath l amb"
    using GetString_config[OF assms(1), of l "[]"] by (simp add: Let_def)
  show ?thesis
  proof (cases "resolvedPath l amb = []")
    case True
    with assms(2) show ?thesis
      by (simp add: PreRunE_hook_def GetBool_version[OF assms(1)] Let_def path bound_upd ReadInConfig_def
            readFailure_def)
  next
    case False
    with assms(2) show ?thesis
      by (cases "readFile amb (resolvedPath l amb)")
         (simp_all add: PreRunE_hook_def GetBool_version[OF assms(1)] Let_def path bound_upd ReadInConfig_def
            readFailure_def)
  qed
qed

lemma Unmarshal_bound:
  assumes "args amb = Flags c ver h"
  shows "Unmarshal amb \<lparr>flagSet = parsed c ver h, vip = bound l P tree, sink = w, dest = p, trace = t\<rparr> =
     (case p of
        NilPointer \<Rightarrow>
          (Some (External ''result must be addressable (a pointer)''),
           \<lparr>flagSet = parsed c ver h, vip = bound l P tree, sink = w, dest = NilPointer, trace = t @ [EvUnmarshal]\<rparr>)
      | StructAt x \<Rightarrow>
          (fst (decode amb (merged l amb tree) x),
           \<lparr>flagSet = parsed c ver h, vip = bound l P tree, sink = w,
            dest = StructAt (snd (decode amb (merged l amb tree) x)), trace = t @ [EvUnmarshal]\<rparr>)
      | NonStructAt x \<Rightarrow>
          (fst (decode amb (merged l amb tree) x),
           \<lparr>flagSet = parsed c ver h, vip = bound l P tree, sink = w,
            dest = NonStructAt (snd (decode amb (merged l amb tree) x)), trace = t @ [EvUnmarshal]\<rparr>))"
  by (cases p) (simp_all add: Unmarshal_def AllSettings_bound[OF assms] split: prod.split)

subsection \<open>The paths through Load\<close>

lemma Load_valid:
  "Load amb l (Pointer p) (Some pv) (Some w) =
     (case Execute amb \<lparr>Use = name l, Short = short l, Long = long l, PreRunE = PreRunE_hook amb l pv, Run = (\<lambda>s. s)\<rparr>
             \<lparr>flagSet = BoolP ''version'' ''v'' False (StringP ''config'' ''c'' [] Map.empty),
              vip = bound l [] Map.empty, sink = w, dest = p, trace = []\<rparr> of
        (Some err, st2) \<Rightarrow> (LoadResultStop, Some (Wrap ''execute root command'' err), world_of st2)
      | (None, st2) \<Rightarrow>
          if FlagChanged (flagSet st2) ''help'' \<or> FlagChanged (flagSet st2) ''version''
          then (LoadResultStop, None, world_of st2)
          else (LoadResultContinue, None, world_of st2))"
  by (simp add: Load_def Kind_of_def build)

lemma Execute_badflags:
  assumes "args amb = BadFlags m"
  shows "Execute amb cmd \<lparr>flagSet = BoolP ''version'' ''v'' False (StringP ''config'' ''c'' [] Map.empty),
              vip = v, sink = w, dest = p, trace = []\<rparr> =
     (Some (External m), \<lparr>flagSet = declared, vip = v, sink = w, dest = p, trace = [EvParseFlags, EvPrintError]\<rparr>)"
  by (simp add: Execute_def init_help assms ParseFlags_def)

lemma Execute_help:
  assumes "args amb = Flags c ver (Some True)"
  shows "Execute amb cmd \<lparr>flagSet = BoolP ''version'' ''v'' False (StringP ''config'' ''c'' [] Map.empty),
              vip = v, sink = w, dest = p, trace = []\<rparr> =
     (None, \<lparr>flagSet = parsed c ver (Some True), vip = v, sink = w, dest = p, trace = [EvParseFlags, EvHelp]\<rparr>)"
  by (simp add: Execute_def init_help assms parse parsed_flags)

lemma Execute_run:
  assumes "args amb = Flags c ver h" "h \<noteq> Some True"
  shows "Execute amb \<lparr>Use = u, Short = sh, Long = lg, PreRunE = hook, Run = (\<lambda>s. s)\<rparr>
            \<lparr>flagSet = BoolP ''version'' ''v'' False (StringP ''config'' ''c'' [] Map.empty),
              vip = v, sink = w, dest = p, trace = []\<rparr> =
     (case hook \<lparr>flagSet = parsed c ver h, vip = v, sink = w, dest = p, trace = [EvParseFlags]\<rparr> of
        (Some err, st2) \<Rightarrow> (Some err, st2\<lparr>trace := trace st2 @ [EvPrintError]\<rparr>)
      | (None, st2) \<Rightarrow> (None, st2))"
  by (simp add: Execute_def init_help assms parse parsed_flags split: prod.split option.split)

lemma Load_badflags:
  assumes "args amb = BadFlags m"
  shows "Load amb l (Pointer p) (Some pv) (Some w) =
     (LoadResultStop, Some (Wrap ''execute root command'' (External m)),
      \<lparr>cfg_after = Pointer p, writer_after = Some w, events = [EvParseFlags, EvPrintError]\<rparr>)"
  by (simp add: Load_valid Execute_badflags[OF assms] world_of_def)

lemma Load_help:
  assumes "args amb = Flags c ver (Some True)"
  shows "Load amb l (Pointer p) (Some pv) (Some w) =
     (LoadResultStop, None, \<lparr>cfg_after = Pointer p, writer_after = Some w, events = [EvParseFlags, EvHelp]\<rparr>)"
  by (simp add: Load_valid Execute_help[OF assms] world_of_def parsed_flags)

lemma Load_version:
  assumes "args amb = Flags c ver h" "h \<noteq> Some True" "versionFlag l amb"
  shows "Load amb l (Pointer p) (Some pv) (Some w) =
     (case fst (pv (Some w)) of
        Some e \<Rightarrow>
          (LoadResultStop, Some (Wrap ''execute root command'' (Wrap ''print version'' e)),
           \<lparr>cfg_after = Pointer p, writer_after = Some (case snd (pv (Some w)) of Some x \<Rightarrow> x | None \<Rightarrow> w),
            events = [EvParseFlags, EvPrintVersion, EvPrintError]\<rparr>)
      | None \<Rightarrow>
          (if h \<noteq> None \<or> ver \<noteq> None then LoadResultStop else LoadResultContinue, None,
           \<lparr>cfg_after = Pointer p, writer_after = Some (case snd (pv (Some w)) of Some x \<Rightarrow> x | None \<Rightarrow> w),
            events = [EvParseFlags, EvPrintVersion]\<rparr>))"
  by (cases "fst (pv (Some w))")
     (simp_all add: Load_valid Execute_run[OF assms(1,2)] hook_version[OF assms(1,3)] world_of_def parsed_flags)


lemma Load_invalid:
  assumes "Kind_of cfg \<noteq> Ptr \<or> pvo = None \<or> wo = None"
  shows "result_of (Load amb l cfg pvo wo) = LoadResultStop \<and>
         error_of (Load amb l cfg pvo wo) \<noteq> None \<and>
         world_after (Load amb l cfg pvo wo) = untouched cfg wo"
  using assms
  by (cases pvo; cases wo) (auto simp add: Load_def result_of_def error_of_def world_after_def)

lemma Load_read_error:
  assumes "args amb = Flags c ver h" "h \<noteq> Some True" "\<not> versionFlag l amb"
    and "readFailure amb (resolvedPath l amb) = Some e"
  shows "Load amb l (Pointer p) (Some pv) (Some w) =
     (LoadResultStop, Some (Wrap ''execute root command'' e),
      \<lparr>cfg_after = Pointer p, writer_after = Some w,
       events = [EvParseFlags, EvSetConfigFile (resolvedPath l amb), EvReadInConfig (resolvedPath l amb),
                 EvPrintError]\<rparr>)"
  using assms(4)
  by (simp add: Load_valid Execute_run[OF assms(1,2)] hook_config[OF assms(1,3)] world_of_def Let_def)

lemma readFailure_Loaded:
  assumes "p \<noteq> []" and "readFile amb p = Loaded tree"
  shows "readFailure amb p = None"
  using assms by (simp add: readFailure_def)

lemma readFailure_None:
  assumes "readFailure amb p = None"
  obtains tree where "p \<noteq> []" and "readFile amb p = Loaded tree"
  using assms by (cases "readFile amb p") (auto simp add: readFailure_def split: if_splits)

lemma Load_decoded:
  assumes "args amb = Flags c ver h" "h \<noteq> Some True" "\<not> versionFlag l amb"
    and "resolvedPath l amb \<noteq> []" and "readFile amb (resolvedPath l amb) = Loaded tree"
    and "p = StructAt x \<and> k = StructAt \<or> p = NonStructAt x \<and> k = NonStructAt"
  shows "Load amb l (Pointer p) (Some pv) (Some w) =
     (case fst (decode amb (merged l amb tree) x) of
        Some e \<Rightarrow>
          (LoadResultStop, Some (Wrap ''execute root command'' (Wrap ''unmarshal main config'' e)),
           \<lparr>cfg_after = Pointer (k (snd (decode amb (merged l amb tree) x))), writer_after = Some w,
            events = [EvParseFlags, EvSetConfigFile (resolvedPath l amb), EvReadInConfig (resolvedPath l amb),
                      EvUnmarshal, EvPrintError]\<rparr>)
      | None \<Rightarrow>
          (if h \<noteq> None \<or> ver \<noteq> None then LoadResultStop else LoadResultContinue, None,
           \<lparr>cfg_after = Pointer (k (snd (decode amb (merged l amb tree) x))), writer_after = Some w,
            events = [EvParseFlags, EvSetConfigFile (resolvedPath l amb), EvReadInConfig (resolvedPath l amb),
                      EvUnmarshal]\<rparr>))"
  using assms(5,6) readFailure_Loaded[OF assms(4,5)]
  by (cases "fst (decode amb (merged l amb tree) x)")
     (auto simp add: Load_valid Execute_run[OF assms(1,2)] hook_config[OF assms(1,3)] world_of_def Let_def
        Unmarshal_bound[OF assms(1)] parsed_flags)

lemma Load_nil_pointer:
  assumes "args amb = Flags c ver h" "h \<noteq> Some True" "\<not> versionFlag l amb"
    and "resolvedPath l amb \<noteq> []" and "readFile amb (resolvedPath l amb) = Loaded tree"
  shows "Load amb l (Pointer NilPointer) (Some pv) (Some w) =
     (LoadResultStop,
      Some (Wrap ''execute root command''
             (Wrap ''unmarshal main config'' (External ''result must be addressable (a pointer)''))),
      \<lparr>cfg_after = Pointer NilPointer, writer_after = Some w,
       events = [EvParseFlags, EvSetConfigFile (resolvedPath l amb), EvReadInConfig (resolvedPath l amb),
                 EvUnmarshal, EvPrintError]\<rparr>)"
  using assms(5) readFailure_Loaded[OF assms(4,5)]
  by (simp add: Load_valid Execute_run[OF assms(1,2)] hook_config[OF assms(1,3)] world_of_def Let_def
        Unmarshal_bound[OF assms(1)])

section \<open>The version printers\<close>

text \<open>
  C7: for every version string, the function \<^verbatim>\<open>PlainVersionPrinter\<close> returns hands the sink
  exactly one payload, the version string followed by a newline, and answers the error
  of that write (none when the sink accepts it); on a nil sink it answers the
  nil-writer error and writes nothing.
\<close>

theorem plain_printer_writes_version_line:
  "PlainVersionPrinter version None = (Some NilWriterReceived, None) \<and>
   PlainVersionPrinter version (Some w) =
     (failure w (version @ [CHR 0x0A]), Some (w\<lparr>writes := writes w @ [version @ [CHR 0x0A]]\<rparr>))"
  by (simp add: PlainVersionPrinter_def Fprintln_def Write_def)

lemma emitted_info:
  "emitted (info version commit date) =
     [(''version'', False, version)] @
     (if commit = [] then [] else [(''commit'', True, commit)]) @
     (if date = [] then [] else [(''date'', True, date)])"
  by (simp add: emitted_def info_def)

lemma Marshal_info:
  "Marshal q (info version commit date) =
     ''{'' @ [CHR 0x22] @ ''version'' @ [CHR 0x22] @ '':'' @ q version @
     (if commit = [] then [] else '','' @ [CHR 0x22] @ ''commit'' @ [CHR 0x22] @ '':'' @ q commit) @
     (if date = [] then [] else '','' @ [CHR 0x22] @ ''date'' @ [CHR 0x22] @ '':'' @ q date) @
     ''}''"
  by (simp add: Marshal_def emitted_info json_member_def)

text \<open>The three shapes of the record, on strings that need no escape.\<close>

lemma Marshal_examples:
  \<open>Marshal quoted (info ''v1.0.0'' ''abc123'' ''2025-04-05'') =
     ''{"version":"v1.0.0","commit":"abc123","date":"2025-04-05"}''\<close>
  \<open>Marshal quoted (info ''v1.0.0'' [] ''2025-04-05'') = ''{"version":"v1.0.0","date":"2025-04-05"}''\<close>
  \<open>Marshal quoted (info ''v1.0.0'' [] []) = ''{"version":"v1.0.0"}''\<close>
  by (simp_all add: Marshal_def emitted_def info_def json_member_def quoted_def)

text \<open>
  C8: for all version, commit and date strings, the function \<^verbatim>\<open>JSONVersionPrinter\<close>
  returns hands the sink one payload, the record with its fields tagged by name and a
  newline after it, and answers the error of that write; on a nil sink it answers the
  nil-writer error and writes nothing.  The \<^verbatim>\<open>version\<close> field is always there, \<^verbatim>\<open>commit\<close>
  and \<^verbatim>\<open>date\<close> are there exactly when they are not empty.
\<close>

theorem json_printer_omits_empty_fields:
  "JSONVersionPrinter q version commit date None = (Some NilWriterReceived, None) \<and>
   JSONVersionPrinter q version commit date (Some w) =
     (failure w (Marshal q (info version commit date) @ [CHR 0x0A]),
      Some (w\<lparr>writes := writes w @ [Marshal q (info version commit date) @ [CHR 0x0A]]\<rparr>)) \<and>
   map fst (emitted (info version commit date)) =
     ''version'' # (if commit = [] then [] else [''commit'']) @ (if date = [] then [] else [''date'']) \<and>
   Marshal q (info version commit date) =
     ''{'' @ [CHR 0x22] @ ''version'' @ [CHR 0x22] @ '':'' @ q version @
     (if commit = [] then [] else '','' @ [CHR 0x22] @ ''commit'' @ [CHR 0x22] @ '':'' @ q commit) @
     (if date = [] then [] else '','' @ [CHR 0x22] @ ''date'' @ [CHR 0x22] @ '':'' @ q date) @
     ''}''"
proof -
  have "JSONVersionPrinter q version commit date None = (Some NilWriterReceived, None)"
    by (simp add: JSONVersionPrinter_def)
  moreover have "JSONVersionPrinter q version commit date (Some w) =
     (failure w (Marshal q (info version commit date) @ [CHR 0x0A]),
      Some (w\<lparr>writes := writes w @ [Marshal q (info version commit date) @ [CHR 0x0A]]\<rparr>))"
    by (simp add: JSONVersionPrinter_def Encode_def Write_def)
  moreover have "map fst (emitted (info version commit date)) =
     ''version'' # (if commit = [] then [] else [''commit'']) @ (if date = [] then [] else [''date''])"
    by (simp add: emitted_info)
  ultimately show ?thesis
    using Marshal_info[of q version commit date] by blast
qed

section \<open>Every path through Load at once\<close>

lemmas sample_defs = sample_def sample_loader_def NewLoader_def sample_files_def sample_decode_def buffer_def
  nested_sample_def nested_decode_def
lemmas eval_defs = versionFlag_def printsVersion_def resolvedPath_def spec_configPath_def envValue_def envName_def
  spec_value_def underFlag_def underEnv_def shadowedBy_def parentKeys_def readFailure_def
  ToUpper_def ToUpper_char_def Replace_def merged_def precedence_def flagGiven_def flagDefault_def
  ToString_def ParseBool_def

lemma Kind_of_Ptr: "Kind_of cfg = Ptr \<longleftrightarrow> (\<exists>p. cfg = Pointer p)"
  by (cases cfg) (simp_all add: Kind_of_def)

lemma Load_config_frame:
  assumes "args amb = Flags c ver h" "h \<noteq> Some True" "\<not> versionFlag l amb"
  shows "\<exists>rest. events (world_after (Load amb l (Pointer p) (Some pv) (Some w))) =
            EvParseFlags # EvSetConfigFile (resolvedPath l amb) # EvReadInConfig (resolvedPath l amb) # rest \<and>
            resolved rest = [] \<and> printerCalls rest = 0"
    and "writer_after (world_after (Load amb l (Pointer p) (Some pv) (Some w))) = Some w"
proof -
  let ?L = "Load amb l (Pointer p) (Some pv) (Some w)"
  let ?P = "resolvedPath l amb"
  have "(\<exists>rest. events (world_after ?L) = EvParseFlags # EvSetConfigFile ?P # EvReadInConfig ?P # rest \<and>
            resolved rest = [] \<and> printerCalls rest = 0) \<and> writer_after (world_after ?L) = Some w"
  proof (cases "readFailure amb ?P")
    case (Some e)
    from Load_read_error[OF assms Some, of p pv w] show ?thesis
      by (simp add: world_after_def printerCalls_def)
  next
    case None
    then obtain tree where named: "?P \<noteq> []" and loaded: "readFile amb ?P = Loaded tree"
      by (rule readFailure_None)
    show ?thesis
    proof (cases p)
      case NilPointer
      then show ?thesis
        using Load_nil_pointer[OF assms named loaded, of pv w]
        by (simp add: world_after_def printerCalls_def)
    next
      case (StructAt x)
      then show ?thesis
        using Load_decoded[OF assms named loaded, of p x StructAt pv w]
        by (cases "fst (decode amb (merged l amb tree) x)") (simp_all add: world_after_def printerCalls_def)
    next
      case (NonStructAt x)
      then show ?thesis
        using Load_decoded[OF assms named loaded, of p x NonStructAt pv w]
        by (cases "fst (decode amb (merged l amb tree) x)") (simp_all add: world_after_def printerCalls_def)
    qed
  qed
  then show "\<exists>rest. events (world_after ?L) = EvParseFlags # EvSetConfigFile ?P # EvReadInConfig ?P # rest \<and>
            resolved rest = [] \<and> printerCalls rest = 0"
    and "writer_after (world_after ?L) = Some w"
    by blast+
qed

lemma plain_on_buffer:
  "PlainVersionPrinter version (Some buffer) =
     (None, Some (buffer\<lparr>writes := [version @ [CHR 0x0A]]\<rparr>))"
  by (simp add: PlainVersionPrinter_def Fprintln_def Write_def buffer_def)

lemma error_carries_Stop:
  assumes "error_of (Load amb l cfg pvo wo) \<noteq> None"
  shows "result_of (Load amb l cfg pvo wo) = LoadResultStop"
proof (cases "Kind_of cfg \<noteq> Ptr \<or> pvo = None \<or> wo = None")
  case True
  from Load_invalid[OF this, of amb l] show ?thesis
    by simp
next
  case False
  then obtain p pv w where valid: "cfg = Pointer p" "pvo = Some pv" "wo = Some w"
    by (auto simp add: Kind_of_Ptr)
  show ?thesis
  proof (cases "args amb")
    case (BadFlags m)
    from Load_badflags[OF this, of l p pv w] valid show ?thesis
      by (simp add: result_of_def)
  next
    case (Flags c ver h)
    show ?thesis
    proof (cases "h = Some True")
      case True
      with Flags have "args amb = Flags c ver (Some True)"
        by simp
      from Load_help[OF this, of l p pv w] valid show ?thesis
        by (simp add: result_of_def)
    next
      case no_help: False
      show ?thesis
      proof (cases "versionFlag l amb")
        case True
        from Load_version[OF Flags no_help True, of p pv w] valid assms show ?thesis
          by (cases "fst (pv (Some w))") (simp_all add: result_of_def error_of_def)
      next
        case off: False
        show ?thesis
        proof (cases "readFailure amb (resolvedPath l amb)")
          case (Some e)
          from Load_read_error[OF Flags no_help off Some, of p pv w] valid show ?thesis
            by (simp add: result_of_def)
        next
          case None
          then obtain tree where named: "resolvedPath l amb \<noteq> []"
            and loaded: "readFile amb (resolvedPath l amb) = Loaded tree"
            by (rule readFailure_None)
          show ?thesis
          proof (cases p)
            case NilPointer
            from Load_nil_pointer[OF Flags no_help off named loaded, of pv w] NilPointer valid show ?thesis
              by (simp add: result_of_def)
          next
            case (StructAt x)
            from Load_decoded[OF Flags no_help off named loaded, of p x StructAt pv w] StructAt valid assms
            show ?thesis
              by (cases "fst (decode amb (merged l amb tree) x)") (simp_all add: result_of_def error_of_def)
          next
            case (NonStructAt x)
            from Load_decoded[OF Flags no_help off named loaded, of p x NonStructAt pv w] NonStructAt valid assms
            show ?thesis
              by (cases "fst (decode amb (merged l amb tree) x)") (simp_all add: result_of_def error_of_def)
          qed
        qed
      qed
    qed
  qed
qed

text \<open>
  The environment variable of the two bound keys, for a prefix that is not empty:
  the prefix in upper case, \<^verbatim>\<open>.\<close> replaced by \<^verbatim>\<open>_\<close>, then \<^verbatim>\<open>_CONFIG\<close> or \<^verbatim>\<open>_VERSION\<close>.
\<close>

lemma ToUpper_append: "ToUpper (a @ b) = ToUpper a @ ToUpper b"
  by (simp add: ToUpper_def)

lemma Replace_append: "Replace r (a @ b) = Replace r a @ Replace r b"
  by (simp add: Replace_def)

lemma envName_config:
  assumes "envPrefix l \<noteq> []"
  shows "envName l ''config'' = Replace (CHR ''.'', CHR ''_'') (ToUpper (envPrefix l)) @ ''_CONFIG''"
    and "envName l ''version'' = Replace (CHR ''.'', CHR ''_'') (ToUpper (envPrefix l)) @ ''_VERSION''"
proof -
  have "ToUpper ''_config'' = ''_CONFIG''" "ToUpper ''_version'' = ''_VERSION''"
    by (simp_all add: ToUpper_def ToUpper_char_def)
  moreover have "Replace (CHR ''.'', CHR ''_'') ''_CONFIG'' = ''_CONFIG''"
    "Replace (CHR ''.'', CHR ''_'') ''_VERSION'' = ''_VERSION''"
    by (simp_all add: Replace_def)
  ultimately show "envName l ''config'' = Replace (CHR ''.'', CHR ''_'') (ToUpper (envPrefix l)) @ ''_CONFIG''"
    and "envName l ''version'' = Replace (CHR ''.'', CHR ''_'') (ToUpper (envPrefix l)) @ ''_VERSION''"
    using assms by (simp_all add: envName_def ToUpper_append Replace_append)
qed


section \<open>The cases of the repository's tests\<close>

text \<open>
  The cases of \<^verbatim>\<open>loader_test.go\<close>, evaluated on the definitions: the model answers what
  the tests expect of the code.
\<close>

lemmas model_defs = Load_def Kind_of_def buildRootCommand_def Execute_def PreRunE_hook_def Unmarshal_def
  world_of_def untouched_def
  StringP_def BoolP_def Lookup_def FlagChanged_def FlagGetBool_def SetFlag_def ParseFlags_def
  InitDefaultHelpFlag_def
  viper_New_def SetEnvPrefix_def SetEnvKeyReplacer_def AutomaticEnv_def BindPFlag_def
  mergeWithEnvPrefix_def getEnv_def boundFlag_def flagVal_def viper_find_def GetBool_def GetString_def
  SetConfigFile_def ReadInConfig_def AllSettings_def shadowedBy_def parentKeys_def
  ToUpper_def ToUpper_char_def Replace_def ParseBool_def ToBool_def ToString_def
  PlainVersionPrinter_def Fprintln_def Write_def
  sample_def sample_loader_def NewLoader_def sample_files_def sample_decode_def buffer_def
  nested_sample_def nested_decode_def Let_def

lemma TestLoad_ArgsValidation:
  "result_of (Load amb l (StructValue c) (Some pv) (Some w)) = LoadResultStop \<and>
   error_of (Load amb l (StructValue c) (Some pv) (Some w)) = Some (CfgNotPointer Struct)"
  "result_of (Load amb l (Pointer p) None (Some w)) = LoadResultStop \<and>
   error_of (Load amb l (Pointer p) None (Some w)) = Some PrintVersionNil"
  "result_of (Load amb l (Pointer p) (Some pv) None) = LoadResultStop \<and>
   error_of (Load amb l (Pointer p) (Some pv) None) = Some WriterNil"
  by (simp_all add: Load_def Kind_of_def result_of_def error_of_def)

lemma TestLoad_FlagsProcessing_version:
  "Load (sample (Flags None (Some True) None) Map.empty) (sample_loader ''config.yaml'')
        (Pointer (StructAt ([], []))) (Some (PlainVersionPrinter ''v1.0.0'')) (Some buffer) =
     (LoadResultStop, None,
      \<lparr>cfg_after = Pointer (StructAt ([], [])),
       writer_after = Some \<lparr>writes = [''v1.0.0'' @ [CHR 0x0A]], failure = (\<lambda>p. None)\<rparr>,
       events = [EvParseFlags, EvPrintVersion]\<rparr>)"
  by (simp add: model_defs)

lemma TestLoad_FlagsProcessing_help:
  "Load (sample (Flags None None (Some True)) Map.empty) (sample_loader ''config.yaml'')
        (Pointer (StructAt ([], []))) (Some (PlainVersionPrinter ''v1.0.0'')) (Some buffer) =
     (LoadResultStop, None,
      \<lparr>cfg_after = Pointer (StructAt ([], [])), writer_after = Some buffer,
       events = [EvParseFlags, EvHelp]\<rparr>)"
  by (simp add: model_defs)

lemma TestLoad_FlagsProcessing_config_flag_override:
  "Load (sample (Flags (Some ''nonexistent.yaml'') None None) Map.empty) (sample_loader ''config.yaml'')
        (Pointer (StructAt ([], []))) (Some (PlainVersionPrinter ''v1.0.0'')) (Some buffer) =
     (LoadResultStop,
      Some (Wrap ''execute root command''
             (ReadMainConfigAt ''nonexistent.yaml'' (PathError ''nonexistent.yaml''))),
      \<lparr>cfg_after = Pointer (StructAt ([], [])), writer_after = Some buffer,
       events = [EvParseFlags, EvSetConfigFile ''nonexistent.yaml'', EvReadInConfig ''nonexistent.yaml'',
                 EvPrintError]\<rparr>)"
  by (simp add: model_defs)

lemma TestLoad_FlagsProcessing_version_and_config_flags:
  "Load (sample (Flags (Some ''nonexistent.yaml'') (Some True) None) Map.empty) (sample_loader ''config.yaml'')
        (Pointer (StructAt ([], []))) (Some (PlainVersionPrinter ''v1.0.0'')) (Some buffer) =
     (LoadResultStop, None,
      \<lparr>cfg_after = Pointer (StructAt ([], [])),
       writer_after = Some \<lparr>writes = [''v1.0.0'' @ [CHR 0x0A]], failure = (\<lambda>p. None)\<rparr>,
       events = [EvParseFlags, EvPrintVersion]\<rparr>)"
  by (simp add: model_defs)

lemma TestLoad_FlagsProcessing_help_and_config_flags:
  "Load (sample (Flags (Some ''nonexistent.yaml'') None (Some True)) Map.empty) (sample_loader ''config.yaml'')
        (Pointer (StructAt ([], []))) (Some (PlainVersionPrinter ''v1.0.0'')) (Some buffer) =
     (LoadResultStop, None,
      \<lparr>cfg_after = Pointer (StructAt ([], [])), writer_after = Some buffer,
       events = [EvParseFlags, EvHelp]\<rparr>)"
  by (simp add: model_defs)

lemma TestLoad_FlagsProcessing_version_and_help_flags:
  "Load (sample (Flags None (Some True) (Some True)) Map.empty) (sample_loader ''config.yaml'')
        (Pointer (StructAt ([], []))) (Some (PlainVersionPrinter ''v1.0.0'')) (Some buffer) =
     (LoadResultStop, None,
      \<lparr>cfg_after = Pointer (StructAt ([], [])), writer_after = Some buffer,
       events = [EvParseFlags, EvHelp]\<rparr>)"
  by (simp add: model_defs)

lemma TestLoad_IncorrectConfig_invalid_config:
  "Load (sample (Flags None None None) Map.empty) (sample_loader ''invalid.yaml'')
        (Pointer (StructAt ([], []))) (Some (PlainVersionPrinter ''v1.0.0'')) (Some buffer) =
     (LoadResultStop,
      Some (Wrap ''execute root command''
             (ReadMainConfigAt ''invalid.yaml'' (External ''While parsing config: yaml''))),
      \<lparr>cfg_after = Pointer (StructAt ([], [])), writer_after = Some buffer,
       events = [EvParseFlags, EvSetConfigFile ''invalid.yaml'', EvReadInConfig ''invalid.yaml'',
                 EvPrintError]\<rparr>)"
  by (simp add: model_defs)

lemma TestLoad_ValidCases_unset_config_flag:
  "Load (sample (Flags None None None) Map.empty) (sample_loader ''config.yaml'')
        (Pointer (StructAt ([], []))) (Some (PlainVersionPrinter ''v1.0.0'')) (Some buffer) =
     (LoadResultContinue, None,
      \<lparr>cfg_after = Pointer (StructAt (''info'', ''8080'')), writer_after = Some buffer,
       events = [EvParseFlags, EvSetConfigFile ''config.yaml'', EvReadInConfig ''config.yaml'',
                 EvUnmarshal]\<rparr>)"
  by (simp add: model_defs)

lemma TestLoad_ValidCases_flag_overrides_default_path:
  "Load (sample (Flags (Some ''config.yaml'') None None) Map.empty) (sample_loader ''default.yaml'')
        (Pointer (StructAt ([], []))) (Some (PlainVersionPrinter ''v1.0.0'')) (Some buffer) =
     (LoadResultContinue, None,
      \<lparr>cfg_after = Pointer (StructAt (''info'', ''8080'')), writer_after = Some buffer,
       events = [EvParseFlags, EvSetConfigFile ''config.yaml'', EvReadInConfig ''config.yaml'',
                 EvUnmarshal]\<rparr>)"
  by (simp add: model_defs)

lemma TestLoad_ValidCases_config_path_overridden_by_env:
  "Load (sample (Flags None None None) [''TESTAPP_CONFIG'' \<mapsto> ''config.yaml'']) (sample_loader ''default.yaml'')
        (Pointer (StructAt ([], []))) (Some (PlainVersionPrinter ''v1.0.0'')) (Some buffer) =
     (LoadResultContinue, None,
      \<lparr>cfg_after = Pointer (StructAt (''info'', ''8080'')), writer_after = Some buffer,
       events = [EvParseFlags, EvSetConfigFile ''config.yaml'', EvReadInConfig ''config.yaml'',
                 EvUnmarshal]\<rparr>)"
  by (simp add: model_defs)

lemma TestLoad_ValidCases_field_overridden_by_env:
  "Load (sample (Flags None None None) [''TESTAPP_LOG_LEVEL'' \<mapsto> ''debug''])
        (sample_loader ''config.yaml'') (Pointer (StructAt ([], [])))
        (Some (PlainVersionPrinter ''v1.0.0'')) (Some buffer) =
     (LoadResultContinue, None,
      \<lparr>cfg_after = Pointer (StructAt (''debug'', ''8080'')), writer_after = Some buffer,
       events = [EvParseFlags, EvSetConfigFile ''config.yaml'', EvReadInConfig ''config.yaml'',
                 EvUnmarshal]\<rparr>)"
  by (simp add: model_defs)

lemma TestLoad_ValidCases_config_and_env_combined:
  "Load (sample (Flags None None None) [''TESTAPP_PORT'' \<mapsto> ''7070''])
        (sample_loader ''config.yaml'') (Pointer (StructAt ([], [])))
        (Some (PlainVersionPrinter ''v1.0.0'')) (Some buffer) =
     (LoadResultContinue, None,
      \<lparr>cfg_after = Pointer (StructAt (''info'', ''7070'')), writer_after = Some buffer,
       events = [EvParseFlags, EvSetConfigFile ''config.yaml'', EvReadInConfig ''config.yaml'',
                 EvUnmarshal]\<rparr>)"
  by (simp add: model_defs)

section \<open>Help and version\<close>




text \<open>
  C2, as amended: with valid arguments, the version flag set and help not asked for,
  the version printer is called exactly once, with the sink, and no config path is
  fixed and no file read, whatever \<^verbatim>\<open>--config\<close> names; \<^verbatim>\<open>Load\<close> answers \<^verbatim>\<open>(Stop, nil)\<close> when
  the printer succeeds and \<^verbatim>\<open>Stop\<close> with the printer's error, wrapped, when it fails.
\<close>

theorem version_short_circuits:
  assumes "args amb = Flags c (Some True) h" and "h \<noteq> Some True"
  shows "Load amb l (Pointer p) (Some pv) (Some w) =
     (LoadResultStop,
      map_option (\<lambda>e. Wrap ''execute root command'' (Wrap ''print version'' e)) (fst (pv (Some w))),
      \<lparr>cfg_after = Pointer p,
       writer_after = Some (case snd (pv (Some w)) of Some x \<Rightarrow> x | None \<Rightarrow> w),
       events = EvParseFlags # EvPrintVersion # (if fst (pv (Some w)) = None then [] else [EvPrintError])\<rparr>) \<and>
     printerCalls (events (world_after (Load amb l (Pointer p) (Some pv) (Some w)))) = 1 \<and>
     resolved (events (world_after (Load amb l (Pointer p) (Some pv) (Some w)))) = []"
proof -
  have on: "versionFlag l amb"
    by (simp add: versionFlag_def assms(1))
  show ?thesis
    using Load_version[OF assms on, of p pv w]
    by (cases "fst (pv (Some w))") (simp_all add: world_after_def printerCalls_def)
qed

theorem version_short_circuits_witness:
  "Load (sample (Flags (Some ''nonexistent.yaml'') (Some True) None) Map.empty)
        (sample_loader ''config.yaml'') (Pointer (StructAt ([], [])))
        (Some (PlainVersionPrinter ''v1.0.0'')) (Some buffer) =
     (LoadResultStop, None,
      \<lparr>cfg_after = Pointer (StructAt ([], [])),
       writer_after = Some (buffer\<lparr>writes := [''v1.0.0'' @ [CHR 0x0A]]\<rparr>),
       events = [EvParseFlags, EvPrintVersion]\<rparr>)"
proof -
  have given: "args (sample (Flags (Some ''nonexistent.yaml'') (Some True) None) Map.empty) =
      Flags (Some ''nonexistent.yaml'') (Some True) None"
    by (simp add: sample_def)
  have no_help: "(None :: bool option) \<noteq> Some True"
    by simp
  from version_short_circuits[OF given no_help, of "sample_loader ''config.yaml''" "StructAt ([], [])"
      "PlainVersionPrinter ''v1.0.0''" buffer]
  show ?thesis
    by (simp add: plain_on_buffer)
qed

text \<open>
  C2 as stated fails when \<^verbatim>\<open>--help\<close> is given beside \<^verbatim>\<open>--version\<close>: cobra prints its help
  and runs no hook, so the printer is called zero times, not once.
\<close>

theorem help_wins_over_version:
  "printerCalls (events (world_after
     (Load (sample (Flags None (Some True) (Some True)) Map.empty)
        (sample_loader ''config.yaml'') (Pointer (StructAt ([], [])))
        (Some (PlainVersionPrinter ''v1.0.0'')) (Some buffer)))) = 0"
proof -
  have "args (sample (Flags None (Some True) (Some True)) Map.empty) = Flags None (Some True) (Some True)"
    by (simp add: sample_def)
  from Load_help[OF this] show ?thesis
    by (simp add: world_after_def printerCalls_def)
qed

section \<open>Validation of the arguments\<close>

text \<open>
  C4, as amended: when the destination is no pointer (the nil interface or a value of
  another kind), or the version printer is nil, or the sink is nil, \<^verbatim>\<open>Load\<close> answers
  \<^verbatim>\<open>Stop\<close> with the error of the first check that fails, and nothing else has happened:
  no argument is parsed, no file read, destination and sink are as they were.
\<close>

theorem invalid_arguments_fail_eagerly:
  assumes "Kind_of cfg \<noteq> Ptr \<or> pvo = None \<or> wo = None"
  shows "Load amb l cfg pvo wo =
     (LoadResultStop,
      Some (if Kind_of cfg \<noteq> Ptr then CfgNotPointer (Kind_of cfg)
            else if pvo = None then PrintVersionNil
            else WriterNil),
      \<lparr>cfg_after = cfg, writer_after = wo, events = []\<rparr>)"
  using assms
  by (cases pvo; cases wo) (auto simp add: Load_def untouched_def)

theorem invalid_arguments_fail_eagerly_witness:
  "Load (sample (Flags None None None) Map.empty) (sample_loader ''config.yaml'')
        (StructValue ([], [])) (Some (PlainVersionPrinter ''v1.0.0'')) (Some buffer) =
     (LoadResultStop, Some (CfgNotPointer Struct),
      \<lparr>cfg_after = StructValue ([], []), writer_after = Some buffer, events = []\<rparr>)"
proof -
  have "Kind_of (StructValue ([] :: string, [] :: string)) \<noteq> Ptr \<or>
        Some (PlainVersionPrinter ''v1.0.0'') = None \<or> Some buffer = None"
    by (simp add: Kind_of_def)
  from invalid_arguments_fail_eagerly[OF this,
      of "sample (Flags None None None) Map.empty" "sample_loader ''config.yaml''"]
  show ?thesis
    by (simp add: Kind_of_def)
qed

text \<open>
  C4 as stated fails at a destination that is a nil pointer: its kind is \<^verbatim>\<open>Ptr\<close>, the
  validation lets it pass, the arguments are parsed and, with \<^verbatim>\<open>--version\<close>, \<^verbatim>\<open>Load\<close>
  answers \<^verbatim>\<open>(Stop, nil)\<close>.
\<close>

theorem nil_pointer_passes_validation:
  "Load (sample (Flags None (Some True) None) Map.empty) (sample_loader ''config.yaml'')
        (Pointer NilPointer) (Some (PlainVersionPrinter ''v1.0.0'')) (Some buffer) =
     (LoadResultStop, None,
      \<lparr>cfg_after = Pointer NilPointer,
       writer_after = Some (buffer\<lparr>writes := [''v1.0.0'' @ [CHR 0x0A]]\<rparr>),
       events = [EvParseFlags, EvPrintVersion]\<rparr>)"
proof -
  let ?amb = "sample (Flags None (Some True) None) Map.empty"
  have given: "args ?amb = Flags None (Some True) None"
    by (simp add: sample_def)
  have no_help: "(None :: bool option) \<noteq> Some True"
    by simp
  have on: "versionFlag (sample_loader ''config.yaml'') ?amb"
    by (simp add: versionFlag_def given)
  from Load_version[OF given no_help on, of NilPointer "PlainVersionPrinter ''v1.0.0''" buffer]
  show ?thesis
    by (simp add: plain_on_buffer)
qed

section \<open>Resolving and reading the config file\<close>




text \<open>
  C9: when the \<^verbatim>\<open>--config\<close> flag is absent or empty and the environment variable of the
  config path is unset or set to the empty string, the resolved path is the Loader's
  fallback: every call that fixes a config path fixes \<^verbatim>\<open>configPath\<close>, and a call fixes
  one exactly when help is not asked for and \<^verbatim>\<open>version\<close> is off.
\<close>

theorem empty_overrides_fall_back:
  assumes "args amb = Flags c ver h"
    and "c = None \<or> c = Some []"
    and "environ amb (envName l ''config'') = None \<or> environ amb (envName l ''config'') = Some []"
  shows "resolvedPath l amb = configPath l \<and>
     resolved (events (world_after (Load amb l (Pointer p) (Some pv) (Some w)))) =
       (if h \<noteq> Some True \<and> \<not> versionFlag l amb then [configPath l] else [])"
proof -
  have no_env: "envValue l (environ amb) ''config'' = None"
    using assms(3) by (auto simp add: envValue_def)
  have path: "resolvedPath l amb = configPath l"
    using assms(2) by (auto simp add: resolvedPath_def assms(1) no_env)
  show ?thesis
  proof (cases "h = Some True")
    case True
    with assms(1) have "args amb = Flags c ver (Some True)"
      by simp
    from Load_help[OF this, of l p pv w] True path show ?thesis
      by (simp add: world_after_def)
  next
    case False
    show ?thesis
    proof (cases "versionFlag l amb")
      case True
      from Load_version[OF assms(1) False True, of p pv w] False True path show ?thesis
        by (cases "fst (pv (Some w))") (simp_all add: world_after_def)
    next
      case no_version: False
      from Load_config_frame(1)[OF assms(1) False no_version, of p pv w] False no_version path
      show ?thesis
        by auto
    qed
  qed
qed

theorem empty_overrides_fall_back_witness:
  "resolved (events (world_after
     (Load (sample (Flags None None None) [''TESTAPP_CONFIG'' \<mapsto> []]) (sample_loader ''config.yaml'')
        (Pointer (StructAt ([], []))) (Some (PlainVersionPrinter ''v1.0.0'')) (Some buffer)))) =
   [''config.yaml'']"
proof -
  let ?amb = "sample (Flags None None None) [''TESTAPP_CONFIG'' \<mapsto> []]"
  let ?l = "sample_loader ''config.yaml''"
  have given: "args ?amb = Flags None None None"
    by (simp add: sample_def)
  have no_flag: "(None :: string option) = None \<or> (None :: string option) = Some []"
    by simp
  have name: "envName ?l ''config'' = ''TESTAPP_CONFIG''"
    by (simp add: sample_defs eval_defs)
  have empty_env: "environ ?amb (envName ?l ''config'') = None \<or> environ ?amb (envName ?l ''config'') = Some []"
    by (simp add: name sample_def)
  have off: "\<not> versionFlag ?l ?amb"
    by (simp add: sample_defs eval_defs)
  have fallback: "configPath ?l = ''config.yaml''"
    by (simp add: sample_defs)
  from empty_overrides_fall_back[OF given no_flag empty_env, of "StructAt ([], [])" "PlainVersionPrinter ''v1.0.0''" buffer]
  show ?thesis
    by (simp add: off fallback)
qed

text \<open>
  What \<^verbatim>\<open>Load\<close> answers when the file is not read.  The branch of the hook that builds
  the config-file-not-found error is taken for the empty path only: for a path that
  names no file, \<^verbatim>\<open>ReadInConfig\<close> answers the error of the operating system and the hook
  wraps it as a failure to read the main config.
\<close>

lemma Load_file_missing:
  assumes "args amb = Flags c ver h" and "h \<noteq> Some True" and "\<not> versionFlag l amb"
    and "resolvedPath l amb \<noteq> []" and "readFile amb (resolvedPath l amb) = Missing"
  shows "Load amb l (Pointer p) (Some pv) (Some w) =
     (LoadResultStop,
      Some (Wrap ''execute root command''
             (ReadMainConfigAt (resolvedPath l amb) (PathError (resolvedPath l amb)))),
      \<lparr>cfg_after = Pointer p, writer_after = Some w,
       events = [EvParseFlags, EvSetConfigFile (resolvedPath l amb), EvReadInConfig (resolvedPath l amb),
                 EvPrintError]\<rparr>)"
proof -
  have "readFailure amb (resolvedPath l amb) =
      Some (ReadMainConfigAt (resolvedPath l amb) (PathError (resolvedPath l amb)))"
    using assms(4,5) by (simp add: readFailure_def)
  from Load_read_error[OF assms(1,2,3) this, of p pv w] show ?thesis
    by simp
qed

lemma Load_empty_path:
  assumes "args amb = Flags c ver h" and "h \<noteq> Some True" and "\<not> versionFlag l amb"
    and "resolvedPath l amb = []"
  shows "Load amb l (Pointer p) (Some pv) (Some w) =
     (LoadResultStop,
      Some (Wrap ''execute root command'' (ConfigFileNotFoundAt [])),
      \<lparr>cfg_after = Pointer p, writer_after = Some w,
       events = [EvParseFlags, EvSetConfigFile [], EvReadInConfig [], EvPrintError]\<rparr>)"
proof -
  have "readFailure amb (resolvedPath l amb) = Some (ConfigFileNotFoundAt [])"
    using assms(4) by (simp add: readFailure_def)
  from Load_read_error[OF assms(1,2,3) this, of p pv w] assms(4) show ?thesis
    by simp
qed

text \<open>
  C5 at the input of the specification: no flag, nothing in the environment, and a
  fallback path \<^verbatim>\<open>nonexistent.yaml\<close> that names no file.  \<^verbatim>\<open>Load\<close> answers \<^verbatim>\<open>Stop\<close> and an error,
  and the destination and the sink are as they were, but the error is not the
  config-file-not-found error: it is the failure to read the main config, around the
  path error of the operating system.
\<close>

theorem missing_file_is_a_read_error:
  "Load (sample (Flags None None None) Map.empty) (sample_loader ''nonexistent.yaml'')
        (Pointer (StructAt ([], []))) (Some (PlainVersionPrinter ''v1.0.0'')) (Some buffer) =
     (LoadResultStop,
      Some (Wrap ''execute root command''
             (ReadMainConfigAt ''nonexistent.yaml'' (PathError ''nonexistent.yaml''))),
      \<lparr>cfg_after = Pointer (StructAt ([], [])), writer_after = Some buffer,
       events = [EvParseFlags, EvSetConfigFile ''nonexistent.yaml'', EvReadInConfig ''nonexistent.yaml'',
                 EvPrintError]\<rparr>) \<and>
   ReadMainConfigAt ''nonexistent.yaml'' (PathError ''nonexistent.yaml'') \<noteq>
     ConfigFileNotFoundAt ''nonexistent.yaml''"
proof -
  let ?amb = "sample (Flags None None None) Map.empty"
  let ?l = "sample_loader ''nonexistent.yaml''"
  have given: "args ?amb = Flags None None None"
    by (simp add: sample_def)
  have no_help: "(None :: bool option) \<noteq> Some True"
    by simp
  have off: "\<not> versionFlag ?l ?amb"
    by (simp add: sample_defs eval_defs)
  have path: "resolvedPath ?l ?amb = ''nonexistent.yaml''"
    by (simp add: sample_defs eval_defs)
  have named: "resolvedPath ?l ?amb \<noteq> []"
    by (simp add: path)
  have missing: "readFile ?amb (resolvedPath ?l ?amb) = Missing"
    by (simp add: path) (simp add: sample_defs)
  from Load_file_missing[OF given no_help off named missing, of "StructAt ([], [])"
      "PlainVersionPrinter ''v1.0.0''" buffer]
  show ?thesis
    by (simp add: path)
qed

section \<open>The sink and the result\<close>

text \<open>
  The sink is handed to nothing but the version printer.  \<^verbatim>\<open>Load\<close> leaves it as it was
  unless the call reaches the printer, that is unless the arguments parse, help is not
  asked for and \<^verbatim>\<open>version\<close> is on: not on invalid arguments, a flag error, the help path,
  a successful load or any error of reading or decoding.  When the call does reach
  the printer, the sink is as the printer left it.
\<close>

lemma sink_only_through_printer:
  "(\<not> printsVersion l amb \<longrightarrow> writer_after (world_after (Load amb l cfg pvo wo)) = wo) \<and>
   (printsVersion l amb \<longrightarrow>
      writer_after (world_after (Load amb l (Pointer p) (Some pv) (Some w))) =
        Some (case snd (pv (Some w)) of Some x \<Rightarrow> x | None \<Rightarrow> w))"
proof (intro conjI impI)
  assume off: "\<not> printsVersion l amb"
  show "writer_after (world_after (Load amb l cfg pvo wo)) = wo"
  proof (cases "Kind_of cfg \<noteq> Ptr \<or> pvo = None \<or> wo = None")
    case True
    from Load_invalid[OF this, of amb l] show ?thesis
      by (simp add: untouched_def)
  next
    case False
    then obtain p pv w where valid: "cfg = Pointer p" "pvo = Some pv" "wo = Some w"
      by (auto simp add: Kind_of_Ptr)
    show ?thesis
    proof (cases "args amb")
      case (BadFlags m)
      from Load_badflags[OF this, of l p pv w] valid show ?thesis
        by (simp add: world_after_def)
    next
      case (Flags c ver h)
      show ?thesis
      proof (cases "h = Some True")
        case True
        with Flags have "args amb = Flags c ver (Some True)"
          by simp
        from Load_help[OF this, of l p pv w] valid show ?thesis
          by (simp add: world_after_def)
      next
        case False
        with off Flags have "\<not> versionFlag l amb"
          by (simp add: printsVersion_def)
        from Load_config_frame(2)[OF Flags False this, of p pv w] valid show ?thesis
          by simp
      qed
    qed
  qed
next
  assume "printsVersion l amb"
  then obtain c ver h where run: "args amb = Flags c ver h" "h \<noteq> Some True" "versionFlag l amb"
    by (cases "args amb") (simp_all add: printsVersion_def)
  from Load_version[OF run, of p pv w]
  show "writer_after (world_after (Load amb l (Pointer p) (Some pv) (Some w))) =
        Some (case snd (pv (Some w)) of Some x \<Rightarrow> x | None \<Rightarrow> w)"
    by (cases "fst (pv (Some w))") (simp_all add: world_after_def)
qed


text \<open>
  C10 at a call without any version flag: \<^verbatim>\<open>TESTAPP_VERSION=true\<close> in the environment
  switches \<^verbatim>\<open>version\<close> on, because the hook asks viper and not the flag, and the
  printer writes to the sink.
\<close>

theorem environment_switches_version_on:
  "flagGiven (args (sample (Flags None None None) [''TESTAPP_VERSION'' \<mapsto> ''true''])) ''version'' = None \<and>
   map_option writes (writer_after (world_after
     (Load (sample (Flags None None None) [''TESTAPP_VERSION'' \<mapsto> ''true''])
        (sample_loader ''config.yaml'') (Pointer (StructAt ([], [])))
        (Some (PlainVersionPrinter ''v1.0.0'')) (Some buffer)))) =
   Some [''v1.0.0'' @ [CHR 0x0A]]"
proof -
  let ?amb = "sample (Flags None None None) [''TESTAPP_VERSION'' \<mapsto> ''true'']"
  let ?l = "sample_loader ''config.yaml''"
  have given: "args ?amb = Flags None None None"
    by (simp add: sample_def)
  have no_help: "(None :: bool option) \<noteq> Some True"
    by simp
  have on: "versionFlag ?l ?amb"
    by (simp add: sample_defs eval_defs)
  from Load_version[OF given no_help on, of "StructAt ([], [])" "PlainVersionPrinter ''v1.0.0''" buffer]
  show ?thesis
    by (simp add: plain_on_buffer world_after_def given flagGiven_def)
qed

text \<open>
  C3 at two inputs.  The hook decides on what viper answers for \<^verbatim>\<open>version\<close>, \<^verbatim>\<open>Load\<close> on
  whether the flag was changed.  With \<^verbatim>\<open>--version=false\<close> the flag is changed but false:
  the config is loaded into the destination and \<^verbatim>\<open>Load\<close> still answers \<^verbatim>\<open>(Stop, nil)\<close>.
  With no flag and \<^verbatim>\<open>TESTAPP_VERSION=1\<close> in the environment the version is printed, no
  config is loaded, and \<^verbatim>\<open>Load\<close> answers \<^verbatim>\<open>(Continue, nil)\<close> over a destination it never
  touched.
\<close>

theorem result_disagrees_with_destination:
  "Load (sample (Flags None (Some False) None) Map.empty) (sample_loader ''config.yaml'')
        (Pointer (StructAt ([], []))) (Some (PlainVersionPrinter ''v1.0.0'')) (Some buffer) =
     (LoadResultStop, None,
      \<lparr>cfg_after = Pointer (StructAt (''info'', ''8080'')), writer_after = Some buffer,
       events = [EvParseFlags, EvSetConfigFile ''config.yaml'', EvReadInConfig ''config.yaml'',
                 EvUnmarshal]\<rparr>) \<and>
   Load (sample (Flags None None None) [''TESTAPP_VERSION'' \<mapsto> ''1'']) (sample_loader ''config.yaml'')
        (Pointer (StructAt ([], []))) (Some (PlainVersionPrinter ''v1.0.0'')) (Some buffer) =
     (LoadResultContinue, None,
      \<lparr>cfg_after = Pointer (StructAt ([], [])),
       writer_after = Some (buffer\<lparr>writes := [''v1.0.0'' @ [CHR 0x0A]]\<rparr>),
       events = [EvParseFlags, EvPrintVersion]\<rparr>)"
proof -
  let ?l = "sample_loader ''config.yaml''"
  let ?tree = "[''log_level'' \<mapsto> VStr ''info'', ''port'' \<mapsto> VStr ''8080'']"
  have no_help: "(None :: bool option) \<noteq> Some True"
    by simp
  have stop: "Load (sample (Flags None (Some False) None) Map.empty) ?l
        (Pointer (StructAt ([], []))) (Some (PlainVersionPrinter ''v1.0.0'')) (Some buffer) =
     (LoadResultStop, None,
      \<lparr>cfg_after = Pointer (StructAt (''info'', ''8080'')), writer_after = Some buffer,
       events = [EvParseFlags, EvSetConfigFile ''config.yaml'', EvReadInConfig ''config.yaml'',
                 EvUnmarshal]\<rparr>)"
  proof -
    let ?amb = "sample (Flags None (Some False) None) Map.empty"
    have given: "args ?amb = Flags None (Some False) None"
      by (simp add: sample_def)
    have off: "\<not> versionFlag ?l ?amb"
      by (simp add: sample_defs eval_defs)
    have path: "resolvedPath ?l ?amb = ''config.yaml''"
      by (simp add: sample_defs eval_defs)
    have named: "resolvedPath ?l ?amb \<noteq> []"
      by (simp add: path)
    have on_disk: "readFile ?amb (resolvedPath ?l ?amb) = Loaded ?tree"
      by (simp add: path) (simp add: sample_defs)
    have decoded: "decode ?amb (merged ?l ?amb ?tree) ([], []) = (None, (''info'', ''8080''))"
      by (simp add: sample_defs eval_defs)
    from Load_decoded[OF given no_help off named on_disk, of "StructAt ([], [])" "([], [])" StructAt
        "PlainVersionPrinter ''v1.0.0''" buffer]
    show ?thesis
      by (simp add: decoded path)
  qed
  have continue: "Load (sample (Flags None None None) [''TESTAPP_VERSION'' \<mapsto> ''1'']) ?l
        (Pointer (StructAt ([], []))) (Some (PlainVersionPrinter ''v1.0.0'')) (Some buffer) =
     (LoadResultContinue, None,
      \<lparr>cfg_after = Pointer (StructAt ([], [])),
       writer_after = Some (buffer\<lparr>writes := [''v1.0.0'' @ [CHR 0x0A]]\<rparr>),
       events = [EvParseFlags, EvPrintVersion]\<rparr>)"
  proof -
    let ?amb = "sample (Flags None None None) [''TESTAPP_VERSION'' \<mapsto> ''1'']"
    have given: "args ?amb = Flags None None None"
      by (simp add: sample_def)
    have on: "versionFlag ?l ?amb"
      by (simp add: sample_defs eval_defs)
    from Load_version[OF given no_help on, of "StructAt ([], [])" "PlainVersionPrinter ''v1.0.0''" buffer]
    show ?thesis
      by (simp add: plain_on_buffer)
  qed
  from stop continue show ?thesis
    by (rule conjI)
qed

end
